theory Spec2Isabelle
  imports Main "HOL-Library.Sublist" "HOL-Library.Word"
begin

section \<open>JavaScript strings\<close>

text \<open>
  The instruction engine of \<^verbatim>\<open>AddMedicationPage.tsx\<close> works on JavaScript strings,
  which are sequences of UTF-16 code units: a code unit is a 16-bit word, and the marker
  glyphs (which lie outside ASCII) are exactly the code units the source file contains.
\<close>

type_synonym codeunit = "16 word"

type_synonym jsstring = "codeunit list"

abbreviation (input) js :: "string \<Rightarrow> jsstring" where
  "js s \<equiv> map of_char s"

abbreviation (input) NL :: codeunit where "NL \<equiv> 10"
abbreviation (input) SPACE :: codeunit where "SPACE \<equiv> 32"
abbreviation (input) DOLLAR :: codeunit where "DOLLAR \<equiv> 36"
abbreviation (input) COMMA :: codeunit where "COMMA \<equiv> 44"
abbreviation (input) PERIOD :: codeunit where "PERIOD \<equiv> 46"

text \<open>The information sign U+2139 with variation selector U+FE0F.\<close>
abbreviation (input) INFO :: jsstring where "INFO \<equiv> [0x2139, 0xFE0F]"

text \<open>The clock face U+1F55C, a surrogate pair.\<close>
abbreviation (input) CLOCK :: jsstring where "CLOCK \<equiv> [0xD83D, 0xDD5C]"

text \<open>The bullet U+2022.\<close>
abbreviation (input) BULLET :: jsstring where "BULLET \<equiv> [0x2022]"

text \<open>
  \<^verbatim>\<open>String.prototype.trim\<close> removes the code units of the ECMAScript productions
  WhiteSpace and LineTerminator from both ends.
\<close>

definition isWhiteSpace :: "codeunit \<Rightarrow> bool" where
  "isWhiteSpace c =
     (c = 9 \<or> c = 10 \<or> c = 11 \<or> c = 12 \<or> c = 13 \<or> c = 32 \<or> c = 160 \<or> c = 5760
      \<or> (8192 \<le> c \<and> c \<le> 8202) \<or> c = 8232 \<or> c = 8233 \<or> c = 8239 \<or> c = 8287
      \<or> c = 12288 \<or> c = 65279)"

definition trimStart :: "jsstring \<Rightarrow> jsstring" where
  "trimStart s = dropWhile isWhiteSpace s"

definition trim :: "jsstring \<Rightarrow> jsstring" where
  "trim s = rev (dropWhile isWhiteSpace (rev (dropWhile isWhiteSpace s)))"

definition startsWith :: "jsstring \<Rightarrow> jsstring \<Rightarrow> bool" where
  "startsWith s p = prefix p s"

definition endsWith :: "jsstring \<Rightarrow> jsstring \<Rightarrow> bool" where
  "endsWith s p = suffix p s"

text \<open>\<^verbatim>\<open>s.split(d)\<close> for a separator of one code unit; the result is never empty.\<close>

fun splitOn :: "codeunit \<Rightarrow> jsstring \<Rightarrow> jsstring list" where
  "splitOn d [] = [[]]"
| "splitOn d (c # cs) =
     (if c = d then [] # splitOn d cs
      else (case splitOn d cs of [] \<Rightarrow> [[c]] | l # ls \<Rightarrow> (c # l) # ls))"

text \<open>\<^verbatim>\<open>s.indexOf(c)\<close> for one code unit; \<open>None\<close> stands for the result \<open>-1\<close>.\<close>

definition indexOf :: "jsstring \<Rightarrow> codeunit \<Rightarrow> nat option" where
  "indexOf s c = (if c \<in> set s then Some (length (takeWhile (\<lambda>x. x \<noteq> c) s)) else None)"

text \<open>\<^verbatim>\<open>s.includes(p)\<close>: \<open>p\<close> occurs in \<open>s\<close> as a contiguous substring.\<close>

fun includesStr :: "jsstring \<Rightarrow> jsstring \<Rightarrow> bool" where
  "includesStr [] p = (p = [])"
| "includesStr (c # cs) p = (prefix p (c # cs) \<or> includesStr cs p)"

text \<open>
  Case-insensitive regular expressions compare code units after \<open>Canonicalize\<close>. The
  patterns of this program consist of the ASCII letters and of U+00EB; a code unit has the
  canonical form of one of those exactly when it is that letter in either case (the
  standard forbids a non-ASCII unit to canonicalize into ASCII), so on every other code
  unit the function may be the identity without changing any match.
\<close>

definition canonicalize :: "codeunit \<Rightarrow> codeunit" where
  "canonicalize c = (if 97 \<le> c \<and> c \<le> 122 then c - 32 else if c = 0xEB then 0xCB else c)"

text \<open>The class \<^verbatim>\<open>\w\<close> that decides the word boundary \<^verbatim>\<open>\b\<close>.\<close>

definition isWordChar :: "codeunit \<Rightarrow> bool" where
  "isWordChar c = ((48 \<le> c \<and> c \<le> 57) \<or> (65 \<le> c \<and> c \<le> 90) \<or> c = 95 \<or> (97 \<le> c \<and> c \<le> 122))"

text \<open>Decimal rendering of a number that is a natural, as a template literal does it.\<close>

function numberToString :: "nat \<Rightarrow> jsstring" where
  "numberToString n =
     (if n < 10 then [48 + of_nat n] else numberToString (n div 10) @ [48 + of_nat (n mod 10)])"
  by pat_completeness auto
termination
  by (relation "measure id") auto

text \<open>A string is truthy when it is not empty.\<close>

definition truthy :: "jsstring \<Rightarrow> bool" where
  "truthy s = (s \<noteq> [])"

section \<open>The data model\<close>

record MedicationForm =
  name :: jsstring
  dosage :: jsstring
  frequency :: jsstring
  interval :: jsstring
  timeOfDay :: jsstring
  precautions :: "jsstring list"

record InstructionDisplay =
  english :: jsstring
  translated :: jsstring
  selectedLanguage :: jsstring

text \<open>
  The three parts of \<^verbatim>\<open>InstructionStructure\<close>. The section \<^verbatim>\<open>timeOfDay\<close> and the two
  fields of \<^verbatim>\<open>lastGenerated\<close> are renamed, since a record field is a constant and the
  form and the display use the same names; so are \<^verbatim>\<open>id\<close> and \<^verbatim>\<open>name\<close> of a tab.
\<close>

record Sections =
  medicationName :: jsstring
  dosageLine :: jsstring
  dosageLineUserContent :: jsstring
  timeOfDaySection :: jsstring
  precautionsHeader :: jsstring
  precautionsList :: "jsstring list"

record UserContent =
  beforeMedication :: jsstring
  afterMedication :: jsstring
  afterDosage :: jsstring
  afterTimeOfDay :: jsstring
  afterPrecautions :: jsstring

record LastGenerated =
  englishGenerated :: jsstring
  translatedGenerated :: jsstring

record InstructionStructure =
  sections :: Sections
  userContent :: UserContent
  lastGenerated :: LastGenerated

record MedicationTab =
  tabId :: nat
  tabName :: jsstring
  isActive :: bool
  formData :: MedicationForm
  instructions :: InstructionDisplay

definition emptyStructure :: InstructionStructure where
  "emptyStructure =
     \<lparr> sections = \<lparr> medicationName = [], dosageLine = [], dosageLineUserContent = [],
                    timeOfDaySection = [], precautionsHeader = [], precautionsList = [] \<rparr>,
       userContent = \<lparr> beforeMedication = [], afterMedication = [], afterDosage = [],
                       afterTimeOfDay = [], afterPrecautions = [] \<rparr>,
       lastGenerated = \<lparr> englishGenerated = [], translatedGenerated = [] \<rparr> \<rparr>"

definition placeholder :: jsstring where
  "placeholder = js ''This will have the translated instructions''"

section \<open>The instruction parser\<close>

datatype Section = BeforeMedication | AfterMedication | AfterDosage | AfterTimeOfDay | PrecautionsSection

text \<open>
  The variables the callback of \<^verbatim>\<open>lines.forEach\<close> closes over (\<open>struct\<close> is the
  source's \<^verbatim>\<open>structure\<close>, a reserved word here).
\<close>

record ParseState =
  struct :: InstructionStructure
  currentSection :: Section
  medicationNameFound :: bool
  precautionsStarted :: bool

definition initialParseState :: ParseState where
  "initialParseState =
     \<lparr> struct = emptyStructure, currentSection = BeforeMedication,
       medicationNameFound = False, precautionsStarted = False \<rparr>"

text \<open>
  The test \<^verbatim>\<open>/^(precautions|voorsorgmaatre\<close>\<open>\<dots>\<close>\<^verbatim>\<open>ls|ukulumkela|ukuqaphela)$/i\<close>: the whole
  line is one of the four words, compared case-insensitively.
\<close>

definition headerWords :: "jsstring list" where
  "headerWords =
     [js ''precautions'', js ''voorsorgmaatre'' @ [0xEB] @ js ''ls'', js ''ukulumkela'',
      js ''ukuqaphela'']"

definition matchesPrecautionsHeader :: "jsstring \<Rightarrow> bool" where
  "matchesPrecautionsHeader l = (map canonicalize l \<in> set (map (map canonicalize) headerWords))"

text \<open>\<^verbatim>\<open>slot += (slot ? '\n' : '') + line\<close>\<close>

definition appendLine :: "jsstring \<Rightarrow> jsstring \<Rightarrow> jsstring" where
  "appendLine slot line = slot @ (if truthy slot then [NL] else []) @ line"

text \<open>The tail of the callback: "Everything else is user content (including empty lines)".\<close>

definition appendUserContent :: "ParseState \<Rightarrow> jsstring \<Rightarrow> ParseState" where
  "appendUserContent st line =
     (let S = struct st; u = userContent S in
      if currentSection st = BeforeMedication then
        st\<lparr>struct := S\<lparr>userContent := u\<lparr>beforeMedication := appendLine (beforeMedication u) line\<rparr>\<rparr>\<rparr>
      else if currentSection st = AfterMedication then
        st\<lparr>struct := S\<lparr>userContent := u\<lparr>afterMedication := appendLine (afterMedication u) line\<rparr>\<rparr>\<rparr>
      else if currentSection st = AfterDosage then
        st\<lparr>struct := S\<lparr>userContent := u\<lparr>afterDosage := appendLine (afterDosage u) line\<rparr>\<rparr>\<rparr>
      else if currentSection st = AfterTimeOfDay then
        st\<lparr>struct := S\<lparr>userContent := u\<lparr>afterTimeOfDay := appendLine (afterTimeOfDay u) line\<rparr>\<rparr>\<rparr>
      else if precautionsStarted st then
        st\<lparr>struct := S\<lparr>userContent := u\<lparr>afterPrecautions := appendLine (afterPrecautions u) line\<rparr>\<rparr>\<rparr>
      else st)"

text \<open>One call of the callback; each \<^verbatim>\<open>return\<close> of the source ends a branch.\<close>

definition parseLine :: "ParseState \<Rightarrow> jsstring \<Rightarrow> ParseState" where
  "parseLine st line =
     (let trimmedLine = trim line; S = struct st; sec = sections S in
      if truthy trimmedLine then
        if \<not> medicationNameFound st \<and> currentSection st = BeforeMedication then
          st\<lparr>struct := S\<lparr>sections := sec\<lparr>medicationName := trimmedLine\<rparr>\<rparr>,
             medicationNameFound := True, currentSection := AfterMedication\<rparr>
        else if startsWith trimmedLine INFO then
          (case indexOf trimmedLine PERIOD of
             Some periodIndex \<Rightarrow>
               (let afterPeriod = trimStart (drop (periodIndex + 1) trimmedLine) in
                st\<lparr>struct := S\<lparr>sections := sec
                     \<lparr>dosageLine := take (periodIndex + 1) trimmedLine,
                      dosageLineUserContent :=
                        (if truthy afterPeriod then afterPeriod else dosageLineUserContent sec)\<rparr>\<rparr>,
                   currentSection := AfterDosage\<rparr>)
           | None \<Rightarrow>
               st\<lparr>struct := S\<lparr>sections := sec\<lparr>dosageLine := trimmedLine\<rparr>\<rparr>,
                  currentSection := AfterDosage\<rparr>)
        else if startsWith trimmedLine CLOCK then
          st\<lparr>struct := S\<lparr>sections := sec\<lparr>timeOfDaySection := trimmedLine\<rparr>\<rparr>,
             currentSection := AfterTimeOfDay\<rparr>
        else if matchesPrecautionsHeader trimmedLine then
          st\<lparr>struct := S\<lparr>sections := sec\<lparr>precautionsHeader := trimmedLine\<rparr>\<rparr>,
             precautionsStarted := True, currentSection := PrecautionsSection\<rparr>
        else if precautionsStarted st \<and> startsWith trimmedLine BULLET then
          st\<lparr>struct := S\<lparr>sections := sec\<lparr>precautionsList := precautionsList sec @ [trimmedLine]\<rparr>\<rparr>\<rparr>
        else appendUserContent st line
      else appendUserContent st line)"

text \<open>The parameter \<^verbatim>\<open>isTranslated\<close> is declared by the source and never read.\<close>

definition parseInstructionContent :: "jsstring \<Rightarrow> bool \<Rightarrow> InstructionStructure" where
  "parseInstructionContent content isTranslated =
     struct (foldl parseLine initialParseState (splitOn NL content))"

section \<open>Reassembly\<close>

text \<open>
  Each \<^verbatim>\<open>if (c) { content += x; }\<close> of the source appends \<open>x\<close> when \<open>c\<close> holds and the
  empty string otherwise.
\<close>

definition reassemble :: "Sections \<Rightarrow> UserContent \<Rightarrow> jsstring" where
  "reassemble s u =
     (let content = [];
          content = content @
            (if truthy (beforeMedication u) then
               beforeMedication u
               @ (if \<not> endsWith (beforeMedication u) [NL] \<and> truthy (medicationName s) then [NL]
                  else [])
             else []);
          content = content @
            (if truthy (medicationName s) then
               medicationName s
               @ (if truthy (afterMedication u) \<or> truthy (dosageLine s) then [NL] else [])
             else []);
          content = content @
            (if truthy (afterMedication u) then
               afterMedication u
               @ (if \<not> endsWith (afterMedication u) [NL] \<and> truthy (dosageLine s) then [NL] else [])
             else []);
          content = content @
            (if truthy (dosageLine s) then
               dosageLine s
               @ (if truthy (dosageLineUserContent s) then [SPACE] @ dosageLineUserContent s else [])
               @ (if truthy (afterDosage u) \<or> truthy (timeOfDaySection s) then [NL] else [])
             else []);
          content = content @
            (if truthy (afterDosage u) then
               afterDosage u
               @ (if \<not> endsWith (afterDosage u) [NL] \<and> truthy (timeOfDaySection s) then [NL]
                  else [])
             else []);
          content = content @
            (if truthy (timeOfDaySection s) then
               timeOfDaySection s
               @ (if truthy (afterTimeOfDay u) \<or> truthy (precautionsHeader s)
                     \<or> 0 < length (precautionsList s)
                  then [NL] else [])
             else []);
          content = content @
            (if truthy (afterTimeOfDay u) then
               afterTimeOfDay u
               @ (if \<not> endsWith (afterTimeOfDay u) [NL]
                     \<and> (truthy (precautionsHeader s) \<or> 0 < length (precautionsList s))
                  then [NL] else [])
             else []);
          content = content @
            (if truthy (precautionsHeader s) \<or> 0 < length (precautionsList s) then
               (if truthy content \<and> \<not> endsWith content [NL, NL] then [NL] else [])
               @ (if truthy (precautionsHeader s) then precautionsHeader s @ [NL] else [])
               @ concat (map (\<lambda>precaution. precaution @ [NL]) (precautionsList s))
             else []);
          content = content @ (if truthy (afterPrecautions u) then afterPrecautions u else [])
      in content)"

text \<open>
  \<^verbatim>\<open>reconstructInstructionContent\<close> reads \<^verbatim>\<open>structure.sections\<close> and
  \<^verbatim>\<open>structure.userContent\<close> only.
\<close>

definition reconstructInstructionContent :: "InstructionStructure \<Rightarrow> jsstring" where
  "reconstructInstructionContent structure0 =
     reassemble (sections structure0) (userContent structure0)"

section \<open>Replacement\<close>

text \<open>
  \<^verbatim>\<open>GetSubstitution\<close> for a pattern without capture groups: in the replacement text,
  \<^verbatim>\<open>$$\<close> stands for a dollar sign, \<^verbatim>\<open>$&\<close> for the match, \<^verbatim>\<open>$`\<close> for the text before the
  match and \<^verbatim>\<open>$'\<close> for the text after it; every other code unit is copied.
\<close>

fun getSubstitution :: "jsstring \<Rightarrow> jsstring \<Rightarrow> jsstring \<Rightarrow> jsstring \<Rightarrow> jsstring" where
  "getSubstitution matched preceding following [] = []"
| "getSubstitution matched preceding following [c] = [c]"
| "getSubstitution matched preceding following (c # d # ds) =
     (if c = DOLLAR \<and> d = DOLLAR then DOLLAR # getSubstitution matched preceding following ds
      else if c = DOLLAR \<and> d = 38 then matched @ getSubstitution matched preceding following ds
      else if c = DOLLAR \<and> d = 96 then preceding @ getSubstitution matched preceding following ds
      else if c = DOLLAR \<and> d = 39 then following @ getSubstitution matched preceding following ds
      else c # getSubstitution matched preceding following (d # ds))"

text \<open>
  \<^verbatim>\<open>s.replace(p, r)\<close> with a string pattern: only the first occurrence of \<open>p\<close> is
  replaced. \<open>replaceFrom\<close> scans \<open>rest\<close>; \<open>passed\<close> is the text already passed, last code
  unit first.
\<close>

fun replaceFrom :: "jsstring \<Rightarrow> jsstring \<Rightarrow> jsstring \<Rightarrow> jsstring \<Rightarrow> jsstring" where
  "replaceFrom p r passed [] = (if p = [] then getSubstitution p (rev passed) [] r else [])"
| "replaceFrom p r passed (c # cs) =
     (if prefix p (c # cs) then
        getSubstitution p (rev passed) (drop (length p) (c # cs)) r @ drop (length p) (c # cs)
      else c # replaceFrom p r (c # passed) cs)"

definition replaceStr :: "jsstring \<Rightarrow> jsstring \<Rightarrow> jsstring \<Rightarrow> jsstring" where
  "replaceStr s p r = replaceFrom p r [] s"

text \<open>
  \<^verbatim>\<open>s.indexOf(p)\<close> for a string \<open>p\<close>, and the text \<open>s\<close> with the occurrence of \<open>p\<close> at
  that index replaced by the expansion of \<open>r\<close>: what "replacing the first literal
  occurrence" means.
\<close>

fun indexOfStr :: "jsstring \<Rightarrow> jsstring \<Rightarrow> nat option" where
  "indexOfStr [] p = (if p = [] then Some 0 else None)"
| "indexOfStr (c # cs) p = (if prefix p (c # cs) then Some 0 else map_option Suc (indexOfStr cs p))"

definition replacedFirst :: "jsstring \<Rightarrow> jsstring \<Rightarrow> jsstring \<Rightarrow> jsstring" where
  "replacedFirst s p r =
     (case indexOfStr s p of
        None \<Rightarrow> s
      | Some i \<Rightarrow>
          take i s @ getSubstitution p (take i s) (drop (i + length p) s) r
          @ drop (i + length p) s)"

text \<open>
  The regular expressions of the program are sequences of literal code units, literal code
  units compared case-insensitively (flag \<^verbatim>\<open>i\<close>) and word boundaries \<^verbatim>\<open>\b\<close>.
  \<open>matchItems\<close> gives the length of the match that starts at \<open>rest\<close>, where \<open>prev\<close> is the
  code unit before it.
\<close>

datatype RegexItem = Lit codeunit | LitIgnoreCase codeunit | WordBoundary

definition isWordOpt :: "codeunit option \<Rightarrow> bool" where
  "isWordOpt c = (case c of None \<Rightarrow> False | Some x \<Rightarrow> isWordChar x)"

definition headOpt :: "jsstring \<Rightarrow> codeunit option" where
  "headOpt s = (case s of [] \<Rightarrow> None | x # _ \<Rightarrow> Some x)"

fun matchItems :: "RegexItem list \<Rightarrow> codeunit option \<Rightarrow> jsstring \<Rightarrow> nat option" where
  "matchItems [] prev rest = Some 0"
| "matchItems (Lit c # items) prev rest =
     (case rest of
        [] \<Rightarrow> None
      | x # xs \<Rightarrow> if x = c then map_option Suc (matchItems items (Some x) xs) else None)"
| "matchItems (LitIgnoreCase c # items) prev rest =
     (case rest of
        [] \<Rightarrow> None
      | x # xs \<Rightarrow>
          if canonicalize x = canonicalize c then map_option Suc (matchItems items (Some x) xs)
          else None)"
| "matchItems (WordBoundary # items) prev rest =
     (if isWordOpt prev \<noteq> isWordOpt (headOpt rest) then matchItems items prev rest else None)"

text \<open>
  \<^verbatim>\<open>s.replace(regex, r)\<close> with the flag \<^verbatim>\<open>g\<close>: every match, from left to right, is
  replaced. \<open>passed\<close> is the text already passed, last code unit first; \<open>skip\<close> counts the
  code units of the current match that are still to be passed; after an empty match the scan
  moves on by one code unit.
\<close>

fun replaceAllFrom :: "RegexItem list \<Rightarrow> jsstring \<Rightarrow> jsstring \<Rightarrow> nat \<Rightarrow> jsstring \<Rightarrow> jsstring" where
  "replaceAllFrom rx r passed (Suc k) [] = []"
| "replaceAllFrom rx r passed (Suc k) (c # cs) = replaceAllFrom rx r (c # passed) k cs"
| "replaceAllFrom rx r passed 0 [] =
     (case matchItems rx (headOpt passed) [] of
        Some n \<Rightarrow> getSubstitution [] (rev passed) [] r
      | None \<Rightarrow> [])"
| "replaceAllFrom rx r passed 0 (c # cs) =
     (case matchItems rx (headOpt passed) (c # cs) of
        Some n \<Rightarrow>
          getSubstitution (take n (c # cs)) (rev passed) (drop n (c # cs)) r
          @ (if n = 0 then c # replaceAllFrom rx r (c # passed) 0 cs
             else replaceAllFrom rx r (c # passed) (n - 1) cs)
      | None \<Rightarrow> c # replaceAllFrom rx r (c # passed) 0 cs)"

definition replaceAll :: "jsstring \<Rightarrow> RegexItem list \<Rightarrow> jsstring \<Rightarrow> jsstring" where
  "replaceAll s rx r = replaceAllFrom rx r [] 0 s"

fun joinWith :: "jsstring \<Rightarrow> jsstring list \<Rightarrow> jsstring" where
  "joinWith sep [] = []"
| "joinWith sep [x] = x"
| "joinWith sep (x # y # ys) = x @ sep @ joinWith sep (y # ys)"

section \<open>Case conversion and the page state\<close>

text \<open>
  \<^verbatim>\<open>toLowerCase\<close> and \<^verbatim>\<open>toUpperCase\<close> follow the Unicode tables of the JavaScript engine,
  which are not part of the repository: they are parameters of the model, and every
  general result holds for all such functions. \<open>asciiCase\<close> is the instance that agrees
  with the engine on strings of ASCII code units.
\<close>

record Builtins =
  toLowerCase :: "jsstring \<Rightarrow> jsstring"
  toUpperCase :: "jsstring \<Rightarrow> jsstring"

definition asciiCase :: Builtins where
  "asciiCase =
     \<lparr> toLowerCase = map (\<lambda>c. if 65 \<le> c \<and> c \<le> 90 then c + 32 else c),
       toUpperCase = map (\<lambda>c. if 97 \<le> c \<and> c \<le> 122 then c - 32 else c) \<rparr>"

datatype Field = Name | Dosage | Frequency | Interval | TimeOfDay | Precautions

datatype Pane = English | Translated

text \<open>
  The state of the component. A handler is a closure created by one render: it reads the
  state variables as they were at that render (the argument \<open>render\<close> of the handlers
  below), while every \<^verbatim>\<open>setX\<close> call updates the pending state, which the handlers take and
  return. \<^verbatim>\<open>setX(v)\<close> overwrites, \<^verbatim>\<open>setX(prev => e)\<close> reads the pending value.
  \<open>storedMedicationTabs\<close> is the item \<^verbatim>\<open>medicationTabs\<close> of \<^verbatim>\<open>localStorage\<close>.
\<close>

record PageState =
  medicationForm :: MedicationForm
  instructionDisplay :: InstructionDisplay
  instructionStructure :: InstructionStructure
  medicationTabs :: "MedicationTab list"
  storedMedicationTabs :: "MedicationTab list option"
  patientLanguage :: jsstring
  translationsLoaded :: bool
  medicationsLoaded :: bool

definition updateActiveTabData ::
  "PageState \<Rightarrow> MedicationForm \<Rightarrow> InstructionDisplay \<Rightarrow> PageState \<Rightarrow> PageState" where
  "updateActiveTabData render fd ins st =
     (let updatedTabs =
            map (\<lambda>tab. if isActive tab then
                          tab\<lparr>formData := fd, instructions := ins,
                              tabName := (if truthy (name fd) then name fd
                                          else js ''Medication '' @ numberToString (tabId tab))\<rparr>
                        else tab)
                (medicationTabs render)
      in st\<lparr>medicationTabs := updatedTabs, storedMedicationTabs := Some updatedTabs\<rparr>)"

section \<open>Clearing a field\<close>

text \<open>The \<^verbatim>\<open>switch\<close> of \<^verbatim>\<open>handleFieldClearing\<close>: the structure and \<^verbatim>\<open>needsUpdate\<close>.\<close>

definition clearSections :: "Field \<Rightarrow> InstructionStructure \<Rightarrow> InstructionStructure \<times> bool" where
  "clearSections field currentStructure =
     (let sec = sections currentStructure;
          clearDosageLine =
            (if truthy (dosageLine sec) then
               (currentStructure\<lparr>sections := sec\<lparr>dosageLine := []\<rparr>\<rparr>, True)
             else (currentStructure, False))
      in case field of
        Name \<Rightarrow>
          if truthy (medicationName sec) then
            (currentStructure\<lparr>sections := sec\<lparr>medicationName := []\<rparr>\<rparr>, True)
          else (currentStructure, False)
      | Dosage \<Rightarrow> clearDosageLine
      | Frequency \<Rightarrow> clearDosageLine
      | Interval \<Rightarrow> clearDosageLine
      | TimeOfDay \<Rightarrow>
          if truthy (timeOfDaySection sec) then
            (currentStructure\<lparr>sections := sec\<lparr>timeOfDaySection := []\<rparr>\<rparr>, True)
          else (currentStructure, False)
      | Precautions \<Rightarrow>
          if truthy (precautionsHeader sec) \<or> 0 < length (precautionsList sec) then
            (currentStructure\<lparr>sections := sec\<lparr>precautionsHeader := [], precautionsList := []\<rparr>\<rparr>,
             True)
          else (currentStructure, False))"

definition handleFieldClearing ::
  "PageState \<Rightarrow> Field \<Rightarrow> MedicationForm \<Rightarrow> PageState \<Rightarrow> PageState" where
  "handleFieldClearing render field newFormData st =
     (let currentStructure = parseInstructionContent (english (instructionDisplay render)) False;
          (currentStructure, needsUpdate) = clearSections field currentStructure
      in if needsUpdate then
           (let newInstructionContent = reconstructInstructionContent currentStructure;
                prev = instructionDisplay st
            in st\<lparr>instructionStructure := currentStructure,
                  instructionDisplay := prev
                    \<lparr>english := newInstructionContent,
                     translated := (if truthy newInstructionContent then translated prev
                                    else placeholder)\<rparr>\<rparr>)
         else st)"

section \<open>Vocabulary lookups\<close>

text \<open>
  The translation helpers of \<^verbatim>\<open>backendTranslationUtils.ts\<close> call the backend through
  \<^verbatim>\<open>translationsApi\<close>. The backend is a parameter: a request either fails (the promise
  rejects) or returns a response.
\<close>

datatype ApiError = RequestFailed

record TranslateRequest =
  requestText :: jsstring
  requestType :: jsstring
  requestLanguage :: jsstring

record BatchTranslateRequest =
  batchItems :: "(jsstring \<times> jsstring) list"
  batchLanguage :: jsstring

record TranslationResult =
  originalText :: jsstring
  resultTranslatedText :: jsstring
  targetLanguage :: jsstring

record 'a ApiResponse =
  success :: bool
  data :: 'a

record TranslationsApi =
  translate :: "TranslateRequest \<Rightarrow> ApiError + TranslationResult ApiResponse"
  translateBatch :: "BatchTranslateRequest \<Rightarrow> ApiError + TranslationResult list ApiResponse"

definition translateOption ::
  "Builtins \<Rightarrow> TranslationsApi \<Rightarrow> jsstring \<Rightarrow> jsstring \<Rightarrow> jsstring \<Rightarrow> jsstring" where
  "translateOption rt api englishText language type0 =
     (case translate api
             \<lparr> requestText = englishText,
               requestType = toUpperCase rt (take 1 type0) @ drop 1 type0,
               requestLanguage = language \<rparr> of
        Inr response \<Rightarrow> if success response then resultTranslatedText (data response) else englishText
      | Inl error \<Rightarrow> englishText)"

definition translateMultiple ::
  "TranslationsApi \<Rightarrow> (jsstring \<times> jsstring) list \<Rightarrow> jsstring \<Rightarrow> TranslationResult list" where
  "translateMultiple api ts language =
     (let fallback =
            map (\<lambda>t. \<lparr> originalText = fst t, resultTranslatedText = fst t, targetLanguage = language \<rparr>) ts
      in case translateBatch api \<lparr> batchItems = ts, batchLanguage = language \<rparr> of
           Inr response \<Rightarrow> if success response then data response else fallback
         | Inl error \<Rightarrow> fallback)"

definition translatePrecautions :: "TranslationsApi \<Rightarrow> jsstring list \<Rightarrow> jsstring \<Rightarrow> jsstring list" where
  "translatePrecautions api englishPrecautions language =
     map resultTranslatedText
       (translateMultiple api (map (\<lambda>precaution. (precaution, js ''Precautions'')) englishPrecautions)
          language)"

definition translateStatic :: "TranslationsApi \<Rightarrow> jsstring \<Rightarrow> jsstring \<Rightarrow> jsstring" where
  "translateStatic api word language =
     (case translate api
             \<lparr> requestText = word, requestType = js ''static'', requestLanguage = language \<rparr> of
        Inr response \<Rightarrow> if success response then resultTranslatedText (data response) else word
      | Inl error \<Rightarrow> word)"

text \<open>
  The seven functions the page imports. For the page each of them is a promise that may
  reject, so the translation step is modelled over any seven fallible functions;
  \<open>backendLookups\<close> are the ones the repository provides.
\<close>

record Lookups =
  lookupTake :: "jsstring \<Rightarrow> ApiError + jsstring"
  lookupPrecautionsHeader :: "jsstring \<Rightarrow> ApiError + jsstring"
  lookupDosage :: "jsstring \<Rightarrow> jsstring \<Rightarrow> ApiError + jsstring"
  lookupFrequency :: "jsstring \<Rightarrow> jsstring \<Rightarrow> ApiError + jsstring"
  lookupInterval :: "jsstring \<Rightarrow> jsstring \<Rightarrow> ApiError + jsstring"
  lookupTimeOfDay :: "jsstring \<Rightarrow> jsstring \<Rightarrow> ApiError + jsstring"
  lookupPrecautions :: "jsstring list \<Rightarrow> jsstring \<Rightarrow> ApiError + jsstring list"

definition backendLookups :: "Builtins \<Rightarrow> TranslationsApi \<Rightarrow> Lookups" where
  "backendLookups rt api =
     \<lparr> lookupTake = (\<lambda>language. Inr (translateStatic api (js ''take'') language)),
       lookupPrecautionsHeader =
         (\<lambda>language. Inr (translateStatic api (js ''precautionsHeader'') language)),
       lookupDosage = (\<lambda>t language. Inr (translateOption rt api t language (js ''dosage''))),
       lookupFrequency = (\<lambda>t language. Inr (translateOption rt api t language (js ''frequency''))),
       lookupInterval = (\<lambda>t language. Inr (translateOption rt api t language (js ''intervals''))),
       lookupTimeOfDay = (\<lambda>t language. Inr (translateOption rt api t language (js ''time_of_day''))),
       lookupPrecautions = (\<lambda>ps language. Inr (translatePrecautions api ps language)) \<rparr>"

section \<open>Translation substitution\<close>

definition bindE :: "'e + 'a \<Rightarrow> ('a \<Rightarrow> 'e + 'b) \<Rightarrow> 'e + 'b" where
  "bindE m f = (case m of Inl e \<Rightarrow> Inl e | Inr x \<Rightarrow> f x)"

definition capitalize :: "Builtins \<Rightarrow> jsstring \<Rightarrow> jsstring" where
  "capitalize rt w = toUpperCase rt (take 1 w) @ drop 1 w"

text \<open>\<^verbatim>\<open>/\<close>\<open>\<dots>\<close>\<^verbatim>\<open> Take\b/g\<close> and \<^verbatim>\<open>/\<close>\<open>\<dots>\<close>\<^verbatim>\<open> take\b/g\<close>, both after the information glyph.\<close>

definition translateTakeStep :: "Builtins \<Rightarrow> Lookups \<Rightarrow> jsstring \<Rightarrow> jsstring \<Rightarrow> ApiError + jsstring" where
  "translateTakeStep rt lookups language translatedText =
     bindE (lookupTake lookups language) (\<lambda>translatedTakeWord.
       (let translatedText =
              replaceAll translatedText (map Lit (INFO @ js '' Take'') @ [WordBoundary])
                (INFO @ [SPACE] @ capitalize rt translatedTakeWord);
            translatedText =
              replaceAll translatedText (map Lit (INFO @ js '' take'') @ [WordBoundary])
                (INFO @ [SPACE] @ translatedTakeWord)
        in Inr translatedText))"

text \<open>\<^verbatim>\<open>/\bPrecautions\b/g\<close>\<close>

definition translateHeaderStep :: "Lookups \<Rightarrow> jsstring \<Rightarrow> jsstring \<Rightarrow> ApiError + jsstring" where
  "translateHeaderStep lookups language translatedText =
     bindE (lookupPrecautionsHeader lookups language) (\<lambda>translatedPrecautionsWord.
       Inr (replaceAll translatedText
              ([WordBoundary] @ map Lit (js ''Precautions'') @ [WordBoundary])
              translatedPrecautionsWord))"

definition translateDosageStep ::
  "Lookups \<Rightarrow> jsstring \<Rightarrow> MedicationForm \<Rightarrow> jsstring \<Rightarrow> ApiError + jsstring" where
  "translateDosageStep lookups language fd translatedText =
     (if truthy (dosage fd) then
        bindE (lookupDosage lookups (dosage fd) language) (\<lambda>translatedDosage.
          Inr (replaceStr translatedText (dosage fd) translatedDosage))
      else Inr translatedText)"

definition translateFrequencyStep ::
  "Builtins \<Rightarrow> Lookups \<Rightarrow> jsstring \<Rightarrow> MedicationForm \<Rightarrow> jsstring \<Rightarrow> ApiError + jsstring" where
  "translateFrequencyStep rt lookups language fd translatedText =
     (if truthy (frequency fd) then
        bindE (lookupFrequency lookups (frequency fd) language) (\<lambda>translatedFrequency.
          Inr (replaceStr translatedText (toLowerCase rt (frequency fd))
                 (toLowerCase rt translatedFrequency)))
      else Inr translatedText)"

definition translateIntervalStep ::
  "Builtins \<Rightarrow> Lookups \<Rightarrow> jsstring \<Rightarrow> MedicationForm \<Rightarrow> jsstring \<Rightarrow> ApiError + jsstring" where
  "translateIntervalStep rt lookups language fd translatedText =
     (if truthy (interval fd) then
        bindE (lookupInterval lookups (interval fd) language) (\<lambda>translatedInterval.
          Inr (replaceStr translatedText (toLowerCase rt (interval fd))
                 (toLowerCase rt translatedInterval)))
      else Inr translatedText)"

definition timeWords :: "jsstring list" where
  "timeWords = [js ''morning'', js ''afternoon'', js ''evening'', js ''night'', js ''noon'']"

text \<open>The loop over \<^verbatim>\<open>timeWords\<close>, with \<^verbatim>\<open>new RegExp(timeWord, 'gi')\<close>.\<close>

fun translateTimeWords ::
  "Builtins \<Rightarrow> Lookups \<Rightarrow> jsstring \<Rightarrow> MedicationForm \<Rightarrow> jsstring list \<Rightarrow> jsstring
     \<Rightarrow> ApiError + jsstring" where
  "translateTimeWords rt lookups language fd [] translatedText = Inr translatedText"
| "translateTimeWords rt lookups language fd (timeWord # ws) translatedText =
     (if includesStr (toLowerCase rt (timeOfDay fd)) timeWord then
        bindE (lookupTimeOfDay lookups (capitalize rt timeWord) language) (\<lambda>translatedTime.
          translateTimeWords rt lookups language fd ws
            (replaceAll translatedText (map LitIgnoreCase timeWord) (toLowerCase rt translatedTime)))
      else translateTimeWords rt lookups language fd ws translatedText)"

definition translateTimeOfDayStep ::
  "Builtins \<Rightarrow> Lookups \<Rightarrow> jsstring \<Rightarrow> MedicationForm \<Rightarrow> jsstring \<Rightarrow> ApiError + jsstring" where
  "translateTimeOfDayStep rt lookups language fd translatedText =
     (if truthy (timeOfDay fd) then translateTimeWords rt lookups language fd timeWords translatedText
      else Inr translatedText)"

text \<open>
  \<^verbatim>\<open>formData.precautions.forEach((precaution, index) => ...)\<close>: an entry of
  \<^verbatim>\<open>translatedPrecautions\<close> that is missing or empty leaves the text as it is.
\<close>

fun replacePrecautions :: "jsstring list \<Rightarrow> nat \<Rightarrow> jsstring list \<Rightarrow> jsstring \<Rightarrow> jsstring" where
  "replacePrecautions translatedPrecautions index [] translatedText = translatedText"
| "replacePrecautions translatedPrecautions index (precaution # ps) translatedText =
     replacePrecautions translatedPrecautions (index + 1) ps
       (if index < length translatedPrecautions \<and> truthy (translatedPrecautions ! index) then
          replaceStr translatedText precaution (translatedPrecautions ! index)
        else translatedText)"

definition translatePrecautionsStep ::
  "Lookups \<Rightarrow> jsstring \<Rightarrow> MedicationForm \<Rightarrow> jsstring \<Rightarrow> ApiError + jsstring" where
  "translatePrecautionsStep lookups language fd translatedText =
     (if 0 < length (precautions fd) then
        bindE (lookupPrecautions lookups (precautions fd) language) (\<lambda>translatedPrecautions.
          Inr (replacePrecautions translatedPrecautions 0 (precautions fd) translatedText))
      else Inr translatedText)"

text \<open>The body of the \<^verbatim>\<open>try\<close> block up to the final value of \<^verbatim>\<open>translatedText\<close>.\<close>

definition translateText ::
  "Builtins \<Rightarrow> Lookups \<Rightarrow> jsstring \<Rightarrow> jsstring \<Rightarrow> MedicationForm \<Rightarrow> ApiError + jsstring" where
  "translateText rt lookups text language fd =
     bindE (translateTakeStep rt lookups language text) (\<lambda>translatedText.
     bindE (translateHeaderStep lookups language translatedText) (\<lambda>translatedText.
     bindE (translateDosageStep lookups language fd translatedText) (\<lambda>translatedText.
     bindE (translateFrequencyStep rt lookups language fd translatedText) (\<lambda>translatedText.
     bindE (translateIntervalStep rt lookups language fd translatedText) (\<lambda>translatedText.
     bindE (translateTimeOfDayStep rt lookups language fd translatedText) (\<lambda>translatedText.
     translatePrecautionsStep lookups language fd translatedText))))))"

definition generateTranslation ::
  "Builtins \<Rightarrow> Lookups \<Rightarrow> PageState \<Rightarrow> jsstring \<Rightarrow> jsstring \<Rightarrow> MedicationForm
     \<Rightarrow> InstructionDisplay option \<Rightarrow> PageState \<Rightarrow> PageState" where
  "generateTranslation rt lookups render text language fd englishInstructions st =
     (if \<not> truthy text \<or> \<not> truthy language then
        (let newInstructions = (instructionDisplay render)\<lparr>translated := placeholder\<rparr>
         in updateActiveTabData render fd newInstructions
              (st\<lparr>instructionDisplay := newInstructions\<rparr>))
      else if \<not> translationsLoaded render \<or> \<not> medicationsLoaded render then
        (let newInstructions = (instructionDisplay render)\<lparr>translated := js ''Loading...''\<rparr>
         in updateActiveTabData render fd newInstructions
              (st\<lparr>instructionDisplay := newInstructions\<rparr>))
      else
        (let base = (case englishInstructions of Some e \<Rightarrow> e | None \<Rightarrow> instructionDisplay render)
         in case translateText rt lookups text language fd of
              Inr translatedText \<Rightarrow>
                (let newInstructions =
                       base\<lparr>translated := translatedText, selectedLanguage := language\<rparr>;
                     st = st\<lparr>instructionDisplay := newInstructions\<rparr>;
                     prevStructure = instructionStructure st;
                     st = st\<lparr>instructionStructure := prevStructure
                            \<lparr>lastGenerated := (lastGenerated prevStructure)
                               \<lparr>translatedGenerated := translatedText\<rparr>\<rparr>\<rparr>
                 in updateActiveTabData render fd newInstructions st)
            | Inl error \<Rightarrow>
                (let newInstructions =
                       base\<lparr>translated := js ''Translation error - showing English version'',
                            selectedLanguage := language\<rparr>
                 in updateActiveTabData render fd newInstructions
                      (st\<lparr>instructionDisplay := newInstructions\<rparr>))))"

section \<open>Composition\<close>

definition timeEmojis :: "(jsstring \<times> jsstring) list" where
  "timeEmojis =
     [(js ''morning'', [0xD83C, 0xDF05]), (js ''afternoon'', [0x2600, 0xFE0F]),
      (js ''evening'', [0xD83C, 0xDF06]), (js ''night'', [0xD83C, 0xDF03])]"

definition formatTimeOfDay :: "Builtins \<Rightarrow> jsstring \<Rightarrow> jsstring" where
  "formatTimeOfDay rt timeOfDayText =
     (let lowerText = toLowerCase rt timeOfDayText;
          foundTimes =
            foldl (\<lambda>found (time, emoji).
                     if includesStr lowerText time then found @ [time @ [SPACE] @ emoji] else found)
                  [] timeEmojis
      in if foundTimes = [] then toLowerCase rt timeOfDayText
         else joinWith (js '', '') foundTimes)"

text \<open>
  The new sections and the updated structure that \<^verbatim>\<open>generateInstruction\<close> builds from the
  form and from the structure parsed from the displayed text.
\<close>

definition composeSections ::
  "Builtins \<Rightarrow> MedicationForm \<Rightarrow> InstructionStructure \<Rightarrow> InstructionStructure" where
  "composeSections rt fd currentStructure =
     (let cleanMedicationName = (case splitOn COMMA (name fd) of [] \<Rightarrow> [] | x # _ \<Rightarrow> x);
          intervalText =
            (if truthy (interval fd) then [SPACE] @ toLowerCase rt (interval fd) else []);
          newDosageLine =
            INFO @ js '' Take '' @ dosage fd @ [SPACE] @ toLowerCase rt (frequency fd)
            @ intervalText @ [PERIOD];
          newTimeOfDay =
            (if truthy (timeOfDay fd) then CLOCK @ [SPACE] @ formatTimeOfDay rt (timeOfDay fd)
             else []);
          newPrecautionsHeader = (if 0 < length (precautions fd) then js ''Precautions'' else []);
          newPrecautionsList = map (\<lambda>precaution. BULLET @ [SPACE] @ precaution) (precautions fd)
      in \<lparr> sections =
             \<lparr> medicationName = cleanMedicationName,
               dosageLine = newDosageLine,
               dosageLineUserContent = dosageLineUserContent (sections currentStructure),
               timeOfDaySection = newTimeOfDay,
               precautionsHeader = newPrecautionsHeader,
               precautionsList = newPrecautionsList \<rparr>,
           userContent =
             \<lparr> beforeMedication = beforeMedication (userContent currentStructure),
               afterMedication = afterMedication (userContent currentStructure),
               afterDosage = afterDosage (userContent currentStructure),
               afterTimeOfDay = afterTimeOfDay (userContent currentStructure),
               afterPrecautions = afterPrecautions (userContent currentStructure) \<rparr>,
           lastGenerated = \<lparr> englishGenerated = [], translatedGenerated = [] \<rparr> \<rparr>)"

text \<open>The part of \<^verbatim>\<open>generateInstruction\<close> that follows its two guards.\<close>

definition composeInstruction ::
  "Builtins \<Rightarrow> Lookups \<Rightarrow> PageState \<Rightarrow> MedicationForm \<Rightarrow> PageState \<Rightarrow> PageState" where
  "composeInstruction rt lookups render fd st =
     (let currentStructure = parseInstructionContent (english (instructionDisplay render)) False;
          updatedStructure = composeSections rt fd currentStructure;
          newInstructionContent = reconstructInstructionContent updatedStructure;
          updatedStructure =
            updatedStructure\<lparr>lastGenerated := (lastGenerated updatedStructure)
              \<lparr>englishGenerated := newInstructionContent\<rparr>\<rparr>;
          st = st\<lparr>instructionStructure := updatedStructure\<rparr>;
          newInstructions = (instructionDisplay render)\<lparr>english := newInstructionContent\<rparr>;
          st = st\<lparr>instructionDisplay := newInstructions\<rparr>
      in if truthy (patientLanguage render) \<and> truthy (dosage fd) then
           generateTranslation rt lookups render newInstructionContent (patientLanguage render)
             fd (Some newInstructions) st
         else updateActiveTabData render fd newInstructions st)"

definition generateInstruction ::
  "Builtins \<Rightarrow> Lookups \<Rightarrow> PageState \<Rightarrow> MedicationForm \<Rightarrow> PageState \<Rightarrow> PageState" where
  "generateInstruction rt lookups render fd st =
     (if \<not> truthy (name fd) \<and> \<not> truthy (dosage fd) \<and> \<not> truthy (frequency fd) then
        (let emptyInstructions =
               (instructionDisplay render)\<lparr>english := [], translated := placeholder\<rparr>
         in updateActiveTabData render fd emptyInstructions
              (st\<lparr>instructionDisplay := emptyInstructions, instructionStructure := emptyStructure\<rparr>))
      else if \<not> truthy (name fd) \<or> \<not> truthy (dosage fd) \<or> \<not> truthy (frequency fd) then st
      else composeInstruction rt lookups render fd st)"

text \<open>
  The block of text the specification describes for a form: the name up to its first comma,
  the dosage sentence, the time-of-day line, and the precautions header with one bullet line
  for each precaution, in this order; a blank line separates the time-of-day line from the
  header.
\<close>

definition composedText :: "Builtins \<Rightarrow> MedicationForm \<Rightarrow> jsstring" where
  "composedText rt fd =
     (let n = takeWhile (\<lambda>c. c \<noteq> COMMA) (name fd);
          d = INFO @ js '' Take '' @ dosage fd @ [SPACE] @ toLowerCase rt (frequency fd)
              @ (if interval fd = [] then [] else [SPACE] @ toLowerCase rt (interval fd))
              @ [PERIOD];
          t = (if timeOfDay fd = [] then []
               else CLOCK @ [SPACE] @ formatTimeOfDay rt (timeOfDay fd))
      in (if n = [] then [] else n @ [NL]) @ d @ (if t = [] then [] else [NL] @ t)
         @ (if precautions fd = [] then []
            else [NL] @ (if t = [] then [] else [NL]) @ js ''Precautions'' @ [NL]
                 @ concat (map (\<lambda>p. BULLET @ [SPACE] @ p @ [NL]) (precautions fd))))"

text \<open>
  The lines of the composed text by themselves, and the composed text of a form that has a
  name line and a time of day with the line \<open>u\<close> of the user between the dosage line and
  the time-of-day line.
\<close>

definition dosageSentence :: "Builtins \<Rightarrow> MedicationForm \<Rightarrow> jsstring" where
  "dosageSentence rt fd =
     INFO @ js '' Take '' @ dosage fd @ [SPACE] @ toLowerCase rt (frequency fd)
     @ (if interval fd = [] then [] else [SPACE] @ toLowerCase rt (interval fd)) @ [PERIOD]"

definition timeOfDayLine :: "Builtins \<Rightarrow> MedicationForm \<Rightarrow> jsstring" where
  "timeOfDayLine rt fd = CLOCK @ [SPACE] @ formatTimeOfDay rt (timeOfDay fd)"

definition precautionsBlock :: "MedicationForm \<Rightarrow> jsstring" where
  "precautionsBlock fd =
     (if precautions fd = [] then []
      else [NL, NL] @ js ''Precautions'' @ [NL]
           @ concat (map (\<lambda>p. BULLET @ [SPACE] @ p @ [NL]) (precautions fd)))"

definition withUserLine :: "Builtins \<Rightarrow> MedicationForm \<Rightarrow> jsstring \<Rightarrow> jsstring" where
  "withUserLine rt fd u =
     takeWhile (\<lambda>c. c \<noteq> COMMA) (name fd) @ [NL] @ dosageSentence rt fd @ [NL]
     @ u @ [NL] @ timeOfDayLine rt fd @ precautionsBlock fd"

text \<open>
  What the parser has recorded of the text of the user, and where it stands: whether the
  name and the header have been found, the current section, the user content and the inline
  user text of the dosage line.
\<close>

definition parseSummary :: "ParseState \<Rightarrow> bool \<times> bool \<times> Section \<times> UserContent \<times> jsstring" where
  "parseSummary st =
     (medicationNameFound st, precautionsStarted st, currentSection st, userContent (struct st),
      dosageLineUserContent (sections (struct st)))"

section \<open>Direct edits of the instruction text\<close>

text \<open>\<^verbatim>\<open>a || b\<close> on strings.\<close>

definition orElse :: "jsstring \<Rightarrow> jsstring \<Rightarrow> jsstring" where
  "orElse a b = (if truthy a then a else b)"

definition syncToTranslatedInstructions :: "PageState \<Rightarrow> jsstring \<Rightarrow> PageState \<Rightarrow> PageState" where
  "syncToTranslatedInstructions render englishContent st =
     (let englishStructure = parseInstructionContent englishContent False;
          currentTranslatedStructure =
            parseInstructionContent (translated (instructionDisplay render)) True;
          translatedStructure =
            \<lparr> sections = (sections currentTranslatedStructure)
                \<lparr>dosageLineUserContent := dosageLineUserContent (sections englishStructure)\<rparr>,
              userContent =
                \<lparr> beforeMedication = beforeMedication (userContent englishStructure),
                  afterMedication = afterMedication (userContent englishStructure),
                  afterDosage = afterDosage (userContent englishStructure),
                  afterTimeOfDay = afterTimeOfDay (userContent englishStructure),
                  afterPrecautions = afterPrecautions (userContent englishStructure) \<rparr>,
              lastGenerated = lastGenerated currentTranslatedStructure \<rparr>;
          newTranslatedContent = reconstructInstructionContent translatedStructure;
          prev = instructionDisplay st
      in st\<lparr>instructionDisplay := prev\<lparr>translated := orElse newTranslatedContent placeholder\<rparr>\<rparr>)"

text \<open>The functional update of \<^verbatim>\<open>setInstructionStructure\<close> in \<^verbatim>\<open>handleInstructionChange\<close>.\<close>

definition mergeEditedStructure ::
  "InstructionStructure \<Rightarrow> InstructionStructure \<Rightarrow> InstructionStructure" where
  "mergeEditedStructure newStructure prevStructure =
     prevStructure
       \<lparr>userContent := userContent newStructure,
        sections := (sections prevStructure)
          \<lparr>medicationName :=
             orElse (medicationName (sections newStructure)) (medicationName (sections prevStructure)),
           dosageLine :=
             orElse (dosageLine (sections newStructure)) (dosageLine (sections prevStructure)),
           timeOfDaySection :=
             orElse (timeOfDaySection (sections newStructure))
               (timeOfDaySection (sections prevStructure)),
           precautionsHeader :=
             orElse (precautionsHeader (sections newStructure))
               (precautionsHeader (sections prevStructure)),
           precautionsList :=
             (if 0 < length (precautionsList (sections newStructure))
              then precautionsList (sections newStructure)
              else precautionsList (sections prevStructure))\<rparr>\<rparr>"

definition handleInstructionChange :: "PageState \<Rightarrow> Pane \<Rightarrow> jsstring \<Rightarrow> PageState \<Rightarrow> PageState" where
  "handleInstructionChange render pane newContent st =
     (let st =
            (case pane of
               English \<Rightarrow>
                 (let newStructure = parseInstructionContent newContent False;
                      st = st\<lparr>instructionStructure :=
                                mergeEditedStructure newStructure (instructionStructure st)\<rparr>;
                      st = st\<lparr>instructionDisplay := (instructionDisplay st)\<lparr>english := newContent\<rparr>\<rparr>
                  in syncToTranslatedInstructions render newContent st)
             | Translated \<Rightarrow>
                 st\<lparr>instructionDisplay := (instructionDisplay st)\<lparr>translated := newContent\<rparr>\<rparr>);
          updatedInstructions =
            (case pane of
               English \<Rightarrow> (instructionDisplay render)\<lparr>english := newContent\<rparr>
             | Translated \<Rightarrow> (instructionDisplay render)\<lparr>translated := newContent\<rparr>)
      in updateActiveTabData render (medicationForm render) updatedInstructions st)"

section \<open>The change event of a form field\<close>

text \<open>
  The argument \<^verbatim>\<open>value: string | string[]\<close> of \<^verbatim>\<open>handleMedicationChange\<close>.
\<close>

datatype FieldValue = Text jsstring | Items "jsstring list"

text \<open>
  \<^verbatim>\<open>{ ...medicationForm, [field]: value }\<close>. The record gives each field the type that the
  interface \<^verbatim>\<open>MedicationForm\<close> declares for it: a string for the five text fields, a list of
  strings for the precautions. Every call of the handler in the page passes a string for one
  of the text fields; a value of the other type has no counterpart in the record, and the
  result is \<open>None\<close>.
\<close>

definition withField :: "MedicationForm \<Rightarrow> Field \<Rightarrow> FieldValue \<Rightarrow> MedicationForm option" where
  "withField fd field v =
     (case v of
        Text s \<Rightarrow>
          (case field of
             Name \<Rightarrow> Some (fd\<lparr>name := s\<rparr>)
           | Dosage \<Rightarrow> Some (fd\<lparr>dosage := s\<rparr>)
           | Frequency \<Rightarrow> Some (fd\<lparr>frequency := s\<rparr>)
           | Interval \<Rightarrow> Some (fd\<lparr>interval := s\<rparr>)
           | TimeOfDay \<Rightarrow> Some (fd\<lparr>timeOfDay := s\<rparr>)
           | Precautions \<Rightarrow> None)
      | Items ps \<Rightarrow>
          (case field of
             Precautions \<Rightarrow> Some (fd\<lparr>precautions := ps\<rparr>)
           | _ \<Rightarrow> None))"

text \<open>\<^verbatim>\<open>value === '' || (Array.isArray(value) && value.length === 0)\<close>\<close>

definition isCleared :: "FieldValue \<Rightarrow> bool" where
  "isCleared v = (case v of Text s \<Rightarrow> s = [] | Items ps \<Rightarrow> length ps = 0)"

text \<open>
  \<^verbatim>\<open>field === 'name' || field === 'dosage' || field === 'frequency' || field === 'interval'
  || field === 'timeOfDay'\<close>
\<close>

definition regenerates :: "Field \<Rightarrow> bool" where
  "regenerates field =
     (case field of
        Name \<Rightarrow> True | Dosage \<Rightarrow> True | Frequency \<Rightarrow> True | Interval \<Rightarrow> True
      | TimeOfDay \<Rightarrow> True | Precautions \<Rightarrow> False)"

text \<open>
  \<^verbatim>\<open>handleMedicationChange\<close>: one event of a form field. The clearing handler and the
  generation handler run in the same event, as closures of the same render; the state
  updates of the first are pending when the second runs.
\<close>

definition handleMedicationChange ::
  "Builtins \<Rightarrow> Lookups \<Rightarrow> PageState \<Rightarrow> Field \<Rightarrow> FieldValue \<Rightarrow> PageState \<Rightarrow> PageState option" where
  "handleMedicationChange rt lookups render field v st =
     (case withField (medicationForm render) field v of
        None \<Rightarrow> None
      | Some newFormData \<Rightarrow>
          (let st = st\<lparr>medicationForm := newFormData\<rparr>;
               st = (if isCleared v then handleFieldClearing render field newFormData st else st);
               st = (if regenerates field then generateInstruction rt lookups render newFormData st
                     else st);
               st = (if regenerates field then st
                     else updateActiveTabData render newFormData (instructionDisplay render) st)
           in Some st))"

section \<open>Example inputs\<close>

text \<open>The state after the first render: the defaults of \<^verbatim>\<open>useState\<close> and the default tab.\<close>

definition isiZulu :: jsstring where
  "isiZulu = js ''isiZulu''"

definition emptyForm :: MedicationForm where
  "emptyForm =
     \<lparr> name = [], dosage = [], frequency = [], interval = [], timeOfDay = [], precautions = [] \<rparr>"

definition initialDisplay :: InstructionDisplay where
  "initialDisplay = \<lparr> english = [], translated = placeholder, selectedLanguage = isiZulu \<rparr>"

definition initialPageState :: PageState where
  "initialPageState =
     (let defaultTab =
            \<lparr> tabId = 1, tabName = js ''Medication 1'', isActive = True, formData = emptyForm,
              instructions = initialDisplay \<rparr>
      in \<lparr> medicationForm = emptyForm, instructionDisplay = initialDisplay,
           instructionStructure = emptyStructure, medicationTabs = [defaultTab],
           storedMedicationTabs = Some [defaultTab], patientLanguage = [],
           translationsLoaded = False, medicationsLoaded = False \<rparr>)"

text \<open>A render in which the English pane shows \<open>t\<close>.\<close>

definition showing :: "jsstring \<Rightarrow> PageState" where
  "showing t = initialPageState\<lparr>instructionDisplay := initialDisplay\<lparr>english := t\<rparr>\<rparr>"

text \<open>The scenario of the specification.\<close>

definition paracetamolForm :: MedicationForm where
  "paracetamolForm =
     \<lparr> name = js ''Paracetamol, oral'', dosage = js ''500mg tablet'',
       frequency = js ''Three times daily'', interval = js ''Every 8 hours'',
       timeOfDay = js ''morning, afternoon, evening'', precautions = [js ''Take with food''] \<rparr>"

definition paracetamolText :: jsstring where
  "paracetamolText =
     js ''Paracetamol'' @ [NL]
     @ INFO @ js '' Take 500mg tablet three times daily every 8 hours.'' @ [NL]
     @ CLOCK @ js '' morning '' @ [0xD83C, 0xDF05] @ js '', afternoon '' @ [0x2600, 0xFE0F]
     @ js '', evening '' @ [0xD83C, 0xDF06] @ [NL, NL]
     @ js ''Precautions'' @ [NL]
     @ BULLET @ js '' Take with food'' @ [NL]"

definition panadoText :: jsstring where
  "panadoText = js ''Panado''"

text \<open>A text whose dosage line carries inline user text.\<close>

definition inlineText :: jsstring where
  "inlineText =
     js ''Panado'' @ [NL] @ INFO @ js '' Take 1 tablet daily. with water'' @ [NL]
     @ js ''after meals'' @ [NL] @ CLOCK @ js '' morning''"

text \<open>A text with a blank line between the name and a line of user text.\<close>

definition blankLineText :: jsstring where
  "blankLineText = js ''Panado'' @ [NL, NL] @ js ''after meals''"

text \<open>A dosage with a decimal point, and the structure composed from it.\<close>

definition decimalForm :: MedicationForm where
  "decimalForm =
     emptyForm\<lparr>name := js ''Panado syrup'', dosage := js ''2.5ml'', frequency := js ''Daily''\<rparr>"

definition decimalStructure :: InstructionStructure where
  "decimalStructure =
     emptyStructure\<lparr>sections := (sections emptyStructure)
       \<lparr>medicationName := js ''Panado syrup'', dosageLine := INFO @ js '' Take 2.5ml daily.''\<rparr>\<rparr>"

definition decimalText :: jsstring where
  "decimalText = js ''Panado syrup'' @ [NL] @ INFO @ js '' Take 2.5ml daily.''"

text \<open>A render with a patient language and loaded lookups.\<close>

definition zuluRender :: "jsstring \<Rightarrow> PageState" where
  "zuluRender t =
     (showing t)\<lparr>patientLanguage := isiZulu, translationsLoaded := True,
       medicationsLoaded := True\<rparr>"

definition panadoForm :: MedicationForm where
  "panadoForm =
     emptyForm\<lparr>name := js ''Panado'', dosage := js ''1 tablet'', frequency := js ''Daily'',
       precautions := [js ''Take with food'']\<rparr>"

definition panadoComposed :: jsstring where
  "panadoComposed =
     js ''Panado'' @ [NL] @ INFO @ js '' Take 1 tablet daily.'' @ [NL]
     @ js ''Precautions'' @ [NL] @ BULLET @ js '' Take with food'' @ [NL]"

text \<open>
  A form with a time of day, a text for it in which the user has added a line that mentions
  the period, and lookups that translate the period, the dosage and the verb.
\<close>

definition morningForm :: MedicationForm where
  "morningForm =
     emptyForm\<lparr>name := js ''Panado'', dosage := js ''1 tablet'', frequency := js ''Daily'',
       timeOfDay := js ''morning''\<rparr>"

definition morningText :: jsstring where
  "morningText =
     js ''Panado'' @ [NL] @ INFO @ js '' Take 1 tablet daily.'' @ [NL]
     @ js ''1 tablet on a cold morning'' @ [NL] @ CLOCK @ js '' morning '' @ [0xD83C, 0xDF05]"

definition zuluLookups :: Lookups where
  "zuluLookups =
     \<lparr> lookupTake = (\<lambda>l. Inr (js ''thatha'')),
       lookupPrecautionsHeader = (\<lambda>l. Inr (js ''Ukuqaphela'')),
       lookupDosage = (\<lambda>t l. Inr (if t = js ''1 tablet'' then js ''iphilisi'' else t)),
       lookupFrequency = (\<lambda>t l. Inr t),
       lookupInterval = (\<lambda>t l. Inr t),
       lookupTimeOfDay = (\<lambda>t l. Inr (if t = js ''Morning'' then js ''Ekuseni'' else t)),
       lookupPrecautions = (\<lambda>ps l. Inr ps) \<rparr>"

text \<open>A backend that fails every request, and lookups that all reject.\<close>

definition failingApi :: TranslationsApi where
  "failingApi = \<lparr> translate = (\<lambda>r. Inl RequestFailed), translateBatch = (\<lambda>r. Inl RequestFailed) \<rparr>"

definition rejectingLookups :: Lookups where
  "rejectingLookups =
     \<lparr> lookupTake = (\<lambda>l. Inl RequestFailed), lookupPrecautionsHeader = (\<lambda>l. Inl RequestFailed),
       lookupDosage = (\<lambda>t l. Inl RequestFailed), lookupFrequency = (\<lambda>t l. Inl RequestFailed),
       lookupInterval = (\<lambda>t l. Inl RequestFailed), lookupTimeOfDay = (\<lambda>t l. Inl RequestFailed),
       lookupPrecautions = (\<lambda>ps l. Inl RequestFailed) \<rparr>"

text \<open>A line the user types between the dosage sentence and the time line, the frequency the
  pharmacist selects afterwards, and a typed line that reads like the precautions header.\<close>

definition userLine :: jsstring where "userLine = js ''after meals''"
definition twiceDaily :: jsstring where "twiceDaily = js ''Twice daily''"
definition headerLine :: jsstring where "headerLine = js ''Precautions''"


text \<open>
  A render of a complete form with an interval, in which the dosage line on display carries
  inline text after its period; and a render of the form without the interval showing
  \<open>inlineText\<close>.
\<close>

definition intervalForm :: MedicationForm where
  "intervalForm = morningForm\<lparr>interval := js ''Every 8 hours''\<rparr>"

definition intervalInlineText :: jsstring where
  "intervalInlineText =
     js ''Panado'' @ [NL] @ INFO @ js '' Take 1 tablet daily every 8 hours. with water'' @ [NL]
     @ js ''after meals'' @ [NL] @ CLOCK @ js '' morning '' @ [0xD83C, 0xDF05]"

definition intervalRender :: PageState where
  "intervalRender = (showing intervalInlineText)\<lparr>medicationForm := intervalForm\<rparr>"

definition inlineRender :: PageState where
  "inlineRender = (showing inlineText)\<lparr>medicationForm := morningForm\<rparr>"

definition inlineWords :: jsstring where
  "inlineWords = js ''with water''"

section \<open>Basic facts\<close>

lemma showing_english: "english (instructionDisplay (showing t)) = t"
  by (simp add: showing_def)

lemma generateInstruction_all_empty:
  "\<not> truthy (name fd) \<Longrightarrow> \<not> truthy (dosage fd) \<Longrightarrow> \<not> truthy (frequency fd) \<Longrightarrow>
   generateInstruction rt lookups render fd st =
     updateActiveTabData render fd
       ((instructionDisplay render)\<lparr>english := [], translated := placeholder\<rparr>)
       (st\<lparr>instructionDisplay := (instructionDisplay render)\<lparr>english := [], translated := placeholder\<rparr>,
           instructionStructure := emptyStructure\<rparr>)"
  by (simp add: generateInstruction_def Let_def)

lemma generateInstruction_partial:
  "truthy (name fd) \<or> truthy (dosage fd) \<or> truthy (frequency fd) \<Longrightarrow>
   \<not> (truthy (name fd) \<and> truthy (dosage fd) \<and> truthy (frequency fd)) \<Longrightarrow>
   generateInstruction rt lookups render fd st = st"
  by (cases "truthy (name fd)"; cases "truthy (dosage fd)"; cases "truthy (frequency fd)";
      simp add: generateInstruction_def)

lemma generateInstruction_complete:
  "truthy (name fd) \<Longrightarrow> truthy (dosage fd) \<Longrightarrow> truthy (frequency fd) \<Longrightarrow>
   generateInstruction rt lookups render fd st = composeInstruction rt lookups render fd st"
  by (simp add: generateInstruction_def)

lemma reconstruct_without_dosageLine:
  "dosageLine (sections s) = [] \<Longrightarrow>
     reconstructInstructionContent (s\<lparr>sections := (sections s)\<lparr>dosageLineUserContent := x\<rparr>\<rparr>)
       = reconstructInstructionContent s"
  by (simp add: reconstructInstructionContent_def reassemble_def truthy_def Let_def
      split del: if_split cong: if_cong)

lemma reconstruct_cong:
  "sections S = sections S' \<Longrightarrow> userContent S = userContent S' \<Longrightarrow>
   reconstructInstructionContent S = reconstructInstructionContent S'"
  by (simp add: reconstructInstructionContent_def)

lemma reconstruct_nonempty:
  "truthy (dosageLine (sections S)) \<Longrightarrow> truthy (reconstructInstructionContent S)"
  by (simp add: reconstructInstructionContent_def reassemble_def truthy_def Let_def
      split del: if_split cong: if_cong)

lemma parse_empty: "parseInstructionContent [] b = emptyStructure"
  by (simp add: parseInstructionContent_def parseLine_def appendUserContent_def appendLine_def
      initialParseState_def emptyStructure_def trim_def truthy_def Let_def)

lemma parse_paracetamolText:
  "parseInstructionContent paracetamolText False =
     \<lparr> sections =
         \<lparr> medicationName = js ''Paracetamol'',
           dosageLine = INFO @ js '' Take 500mg tablet three times daily every 8 hours.'',
           dosageLineUserContent = [],
           timeOfDaySection =
             CLOCK @ js '' morning '' @ [0xD83C, 0xDF05] @ js '', afternoon '' @ [0x2600, 0xFE0F]
             @ js '', evening '' @ [0xD83C, 0xDF06],
           precautionsHeader = js ''Precautions'',
           precautionsList = [BULLET @ js '' Take with food''] \<rparr>,
       userContent =
         \<lparr> beforeMedication = [], afterMedication = [], afterDosage = [], afterTimeOfDay = [],
           afterPrecautions = [] \<rparr>,
       lastGenerated = \<lparr> englishGenerated = [], translatedGenerated = [] \<rparr> \<rparr>"
  by code_simp

lemma updateActiveTabData_keeps [simp]:
  "instructionStructure (updateActiveTabData render fd ins st) = instructionStructure st"
  "instructionDisplay (updateActiveTabData render fd ins st) = instructionDisplay st"
  by (simp_all add: updateActiveTabData_def Let_def)

lemma first_segment:
  "(case splitOn d s of [] \<Rightarrow> [] | x # _ \<Rightarrow> x) = takeWhile (\<lambda>c. c \<noteq> d) s"
  by (induction s) (auto split: list.splits)

lemma foldl_collect:
  "foldl (\<lambda>found x. if P x then found @ [f x] else found) acc xs = acc @ map f (filter P xs)"
  by (induction xs arbitrary: acc) simp_all

lemma formatTimeOfDay_filter:
  "formatTimeOfDay rt t =
     (let found = filter (\<lambda>p. includesStr (toLowerCase rt t) (fst p)) timeEmojis
      in if found = [] then toLowerCase rt t
         else joinWith (js '', '') (map (\<lambda>p. fst p @ [SPACE] @ snd p) found))"
proof -
  have "(\<lambda>found (time, emoji).
           if includesStr (toLowerCase rt t) time then found @ [time @ [SPACE] @ emoji] else found)
      = (\<lambda>found x.
           if includesStr (toLowerCase rt t) (fst x) then found @ [fst x @ [SPACE] @ snd x]
           else found)"
    by (auto simp add: fun_eq_iff)
  then show ?thesis
    by (simp add: formatTimeOfDay_def Let_def foldl_collect [where acc = "[]", simplified])
qed

lemma set_joinWith: "set (joinWith sep xs) \<subseteq> set sep \<union> \<Union> (set ` set xs)"
  by (induction sep xs rule: joinWith.induct) auto

lemma formatTimeOfDay_no_NL:
  assumes "NL \<notin> set (toLowerCase rt t)"
  shows "NL \<notin> set (formatTimeOfDay rt t)"
proof -
  let ?found = "filter (\<lambda>p. includesStr (toLowerCase rt t) (fst p)) timeEmojis"
  have "\<forall>p\<in>set timeEmojis. NL \<notin> set (fst p) \<and> NL \<notin> set (snd p)"
    by (simp add: timeEmojis_def)
  then have "NL \<notin> \<Union> (set ` set (map (\<lambda>p. fst p @ [SPACE] @ snd p) ?found))"
    by auto
  moreover have "NL \<notin> set (js '', '')"
    by simp
  ultimately have "NL \<notin> set (joinWith (js '', '') (map (\<lambda>p. fst p @ [SPACE] @ snd p) ?found))"
    using set_joinWith [of "js '', ''" "map (\<lambda>p. fst p @ [SPACE] @ snd p) ?found"] by blast
  then show ?thesis
    using assms by (simp add: formatTimeOfDay_filter Let_def)
qed

lemma generateTranslation_structure:
  "englishGenerated (lastGenerated (instructionStructure
      (generateTranslation rt lookups render text language fd ei st)))
   = englishGenerated (lastGenerated (instructionStructure st))"
  "sections (instructionStructure (generateTranslation rt lookups render text language fd ei st))
   = sections (instructionStructure st)"
  "userContent (instructionStructure (generateTranslation rt lookups render text language fd ei st))
   = userContent (instructionStructure st)"
  by (simp_all add: generateTranslation_def Let_def split: sum.splits)

lemma generateTranslation_english:
  "truthy text \<Longrightarrow> truthy language \<Longrightarrow>
   english (instructionDisplay (generateTranslation rt lookups render text language fd (Some ins) st))
     = (if translationsLoaded render \<and> medicationsLoaded render then english ins
        else english (instructionDisplay render))"
  by (simp add: generateTranslation_def Let_def split: sum.splits)

lemma compose_structure:
  "sections (instructionStructure (composeInstruction rt lookups render fd st))
     = sections (composeSections rt fd
         (parseInstructionContent (english (instructionDisplay render)) False))"
  "userContent (instructionStructure (composeInstruction rt lookups render fd st))
     = userContent (composeSections rt fd
         (parseInstructionContent (english (instructionDisplay render)) False))"
  "englishGenerated (lastGenerated (instructionStructure (composeInstruction rt lookups render fd st)))
     = reconstructInstructionContent
         (composeSections rt fd (parseInstructionContent (english (instructionDisplay render)) False))"
  by (simp_all add: composeInstruction_def generateTranslation_structure Let_def)

lemma composeSections_dosageLine:
  "truthy (dosageLine (sections (composeSections rt fd cur)))"
  by (simp add: composeSections_def truthy_def Let_def)

lemma compose_english:
  "english (instructionDisplay (composeInstruction rt lookups render fd st)) =
     (if truthy (patientLanguage render) \<and> truthy (dosage fd)
         \<and> \<not> (translationsLoaded render \<and> medicationsLoaded render)
      then english (instructionDisplay render)
      else reconstructInstructionContent
             (composeSections rt fd
               (parseInstructionContent (english (instructionDisplay render)) False)))"
  using reconstruct_nonempty [OF composeSections_dosageLine,
      of rt fd "parseInstructionContent (english (instructionDisplay render)) False"]
  by (simp add: composeInstruction_def generateTranslation_english Let_def)

lemma reconstruct_composed_empty:
  assumes "NL \<notin> set (toLowerCase rt (timeOfDay fd))"
  shows "reconstructInstructionContent (composeSections rt fd emptyStructure) = composedText rt fd"
proof -
  have f: "NL \<notin> set (formatTimeOfDay rt (timeOfDay fd))"
    using assms by (rule formatTimeOfDay_no_NL)
  have g: "\<not> prefix [NL] (rev (formatTimeOfDay rt (timeOfDay fd)) @ SPACE # xs)" for xs
    using f by (cases "formatTimeOfDay rt (timeOfDay fd)" rule: rev_cases) auto
  show ?thesis
    by (cases "takeWhile (\<lambda>c. c \<noteq> COMMA) (name fd) = []"; cases "interval fd = []";
        cases "timeOfDay fd = []"; cases "precautions fd = []";
        simp add: reconstructInstructionContent_def reassemble_def composeSections_def
          composedText_def emptyStructure_def first_segment truthy_def Let_def comp_def
          endsWith_def suffix_to_prefix g split del: if_split cong: if_cong)
qed

section \<open>Selective clearing\<close>

text \<open>
  C3. Clearing the time-of-day field of a structure whose time-of-day section is populated
  gives the same structure with that section empty, and nothing else changed: the switch
  does so on every structure, and the handler stores exactly that for the structure it
  parses from the displayed text. When the section or sections of a field hold no content,
  the handler changes nothing in the state.
\<close>

theorem clearing_is_selective:
  "(truthy (timeOfDaySection (sections s)) \<longrightarrow>
      clearSections TimeOfDay s = (s\<lparr>sections := (sections s)\<lparr>timeOfDaySection := []\<rparr>\<rparr>, True))
   \<and> (truthy (timeOfDaySection
          (sections (parseInstructionContent (english (instructionDisplay render)) False))) \<longrightarrow>
        instructionStructure (handleFieldClearing render TimeOfDay fd st) =
          (let cur = parseInstructionContent (english (instructionDisplay render)) False
           in cur\<lparr>sections := (sections cur)\<lparr>timeOfDaySection := []\<rparr>\<rparr>))
   \<and> ((let sec = sections (parseInstructionContent (english (instructionDisplay render)) False) in
         case field of
           Name \<Rightarrow> medicationName sec = []
         | Dosage \<Rightarrow> dosageLine sec = []
         | Frequency \<Rightarrow> dosageLine sec = []
         | Interval \<Rightarrow> dosageLine sec = []
         | TimeOfDay \<Rightarrow> timeOfDaySection sec = []
         | Precautions \<Rightarrow> precautionsHeader sec = [] \<and> precautionsList sec = []) \<longrightarrow>
        handleFieldClearing render field fd st = st)"
  by (cases field) (simp_all add: clearSections_def handleFieldClearing_def truthy_def Let_def)

theorem clearing_is_selective_witness:
  "truthy (timeOfDaySection (sections (parseInstructionContent paracetamolText False)))
   \<and> instructionStructure
        (handleFieldClearing (showing paracetamolText) TimeOfDay emptyForm (showing paracetamolText)) =
       (let cur = parseInstructionContent paracetamolText False
        in cur\<lparr>sections := (sections cur)\<lparr>timeOfDaySection := []\<rparr>\<rparr>)
   \<and> dosageLine (sections (parseInstructionContent (js ''Paracetamol'') False)) = []
   \<and> handleFieldClearing (showing (js ''Paracetamol'')) Dosage emptyForm (showing (js ''Paracetamol''))
       = showing (js ''Paracetamol'')"
proof -
  have h1: "truthy (timeOfDaySection (sections (parseInstructionContent paracetamolText False)))"
    by (simp add: parse_paracetamolText truthy_def)
  have h2: "dosageLine (sections (parseInstructionContent (js ''Paracetamol'') False)) = []"
    by code_simp
  show ?thesis
    using h1 h2
      clearing_is_selective [of "parseInstructionContent paracetamolText False"
        "showing paracetamolText" emptyForm "showing paracetamolText" Dosage]
      clearing_is_selective [of "parseInstructionContent paracetamolText False"
        "showing (js ''Paracetamol'')" emptyForm "showing (js ''Paracetamol'')" Dosage]
    by (simp add: showing_english)
qed

section \<open>The guard of the generation handler\<close>

text \<open>
  C4. When name, dosage and frequency are all empty, the generation handler sets the English
  text to the empty string and the translated text to the placeholder and clears the
  structure, whatever the other fields hold; when at least one but not all of the three are
  non-empty, it returns the state as it was.
\<close>

theorem guard_correct:
  "(\<not> truthy (name fd) \<and> \<not> truthy (dosage fd) \<and> \<not> truthy (frequency fd) \<longrightarrow>
      english (instructionDisplay (generateInstruction rt lookups render fd st)) = []
      \<and> translated (instructionDisplay (generateInstruction rt lookups render fd st)) = placeholder
      \<and> instructionStructure (generateInstruction rt lookups render fd st) = emptyStructure)
   \<and> ((truthy (name fd) \<or> truthy (dosage fd) \<or> truthy (frequency fd))
        \<and> \<not> (truthy (name fd) \<and> truthy (dosage fd) \<and> truthy (frequency fd)) \<longrightarrow>
      generateInstruction rt lookups render fd st = st)"
  using generateInstruction_partial [of fd rt lookups render st]
  by (simp add: generateInstruction_all_empty updateActiveTabData_def Let_def)

theorem guard_correct_witness:
  "(let fd = emptyForm\<lparr>interval := js ''Every 8 hours'', precautions := [js ''Take with food'']\<rparr>;
        st = generateInstruction asciiCase rejectingLookups (showing paracetamolText) fd
               (showing paracetamolText)
    in english (instructionDisplay st) = [] \<and> translated (instructionDisplay st) = placeholder
       \<and> instructionStructure st = emptyStructure)
   \<and> generateInstruction asciiCase rejectingLookups (showing paracetamolText)
        (emptyForm\<lparr>name := js ''Paracetamol''\<rparr>) (showing paracetamolText)
       = showing paracetamolText"
  using
    guard_correct [of "emptyForm\<lparr>interval := js ''Every 8 hours'', precautions := [js ''Take with food'']\<rparr>"
      asciiCase rejectingLookups "showing paracetamolText" "showing paracetamolText"]
    guard_correct [of "emptyForm\<lparr>name := js ''Paracetamol''\<rparr>"
      asciiCase rejectingLookups "showing paracetamolText" "showing paracetamolText"]
  by (simp add: emptyForm_def truthy_def Let_def)

section \<open>Direct edits keep the generated sections\<close>

text \<open>
  C8. After a direct edit of the English text, each generated section of the retained
  structure is the value parsed from the edited text when that value is not empty, and the
  previous value otherwise; so a section that was populated is never cleared by an edit.
\<close>

theorem edit_keeps_generated_sections:
  "(let new = sections (parseInstructionContent newContent False);
        prev = sections (instructionStructure st);
        upd = sections (instructionStructure (handleInstructionChange render English newContent st))
    in medicationName upd
         = (if truthy (medicationName new) then medicationName new else medicationName prev)
       \<and> dosageLine upd = (if truthy (dosageLine new) then dosageLine new else dosageLine prev)
       \<and> timeOfDaySection upd
         = (if truthy (timeOfDaySection new) then timeOfDaySection new else timeOfDaySection prev)
       \<and> precautionsHeader upd
         = (if truthy (precautionsHeader new) then precautionsHeader new else precautionsHeader prev)
       \<and> precautionsList upd
         = (if 0 < length (precautionsList new) then precautionsList new else precautionsList prev)
       \<and> (truthy (medicationName prev) \<longrightarrow> truthy (medicationName upd))
       \<and> (truthy (dosageLine prev) \<longrightarrow> truthy (dosageLine upd))
       \<and> (truthy (timeOfDaySection prev) \<longrightarrow> truthy (timeOfDaySection upd))
       \<and> (truthy (precautionsHeader prev) \<longrightarrow> truthy (precautionsHeader upd))
       \<and> (0 < length (precautionsList prev) \<longrightarrow> 0 < length (precautionsList upd)))"
  by (simp add: handleInstructionChange_def mergeEditedStructure_def syncToTranslatedInstructions_def
        updateActiveTabData_def orElse_def Let_def)

theorem edit_keeps_generated_sections_witness:
  "(let prev = sections (parseInstructionContent paracetamolText False);
        st = (showing paracetamolText)
               \<lparr>instructionStructure := parseInstructionContent paracetamolText False\<rparr>;
        upd = sections (instructionStructure
                (handleInstructionChange (showing paracetamolText) English panadoText st))
    in truthy (dosageLine prev) \<and> truthy (timeOfDaySection prev) \<and> truthy (precautionsHeader prev)
       \<and> 0 < length (precautionsList prev)
       \<and> medicationName upd = panadoText
       \<and> dosageLine upd = dosageLine prev \<and> timeOfDaySection upd = timeOfDaySection prev
       \<and> precautionsHeader upd = precautionsHeader prev
       \<and> precautionsList upd = precautionsList prev)"
proof -
  have new: "sections (parseInstructionContent panadoText False)
     = \<lparr> medicationName = panadoText, dosageLine = [], dosageLineUserContent = [],
         timeOfDaySection = [], precautionsHeader = [], precautionsList = [] \<rparr>"
    by code_simp
  have nonempty: "panadoText \<noteq> []"
    by (simp add: panadoText_def)
  have prev: "truthy (dosageLine (sections (parseInstructionContent paracetamolText False)))"
    "truthy (timeOfDaySection (sections (parseInstructionContent paracetamolText False)))"
    "truthy (precautionsHeader (sections (parseInstructionContent paracetamolText False)))"
    "0 < length (precautionsList (sections (parseInstructionContent paracetamolText False)))"
    by (simp_all add: parse_paracetamolText truthy_def)
  show ?thesis
    using prev nonempty
      edit_keeps_generated_sections [of panadoText
        "(showing paracetamolText)\<lparr>instructionStructure := parseInstructionContent paracetamolText False\<rparr>"
        "showing paracetamolText"]
    by (simp add: new Let_def truthy_def)
qed

section \<open>Inline user text after a cleared dosage line\<close>

text \<open>
  What the clearing handler stores when the displayed text has a dosage line: the structure
  without the dosage line, which still holds the inline text, and the reassembly of the
  structure, which emits the inline text only together with a dosage line.
\<close>

lemma handleFieldClearing_dosageLine:
  assumes f: "field \<in> {Dosage, Frequency, Interval}"
    and cur: "cur = parseInstructionContent (english (instructionDisplay render)) False"
    and d: "truthy (dosageLine (sections cur))"
  shows "handleFieldClearing render field fd st =
      st\<lparr>instructionStructure := cur\<lparr>sections := (sections cur)\<lparr>dosageLine := []\<rparr>\<rparr>,
         instructionDisplay := (instructionDisplay st)
           \<lparr>english := reconstructInstructionContent
               (cur\<lparr>sections := (sections cur)\<lparr>dosageLine := [], dosageLineUserContent := []\<rparr>\<rparr>),
            translated :=
              (if truthy (reconstructInstructionContent
                   (cur\<lparr>sections := (sections cur)\<lparr>dosageLine := [], dosageLineUserContent := []\<rparr>\<rparr>))
               then translated (instructionDisplay st) else placeholder)\<rparr>\<rparr>"
proof -
  let ?cleared = "cur\<lparr>sections := (sections cur)\<lparr>dosageLine := []\<rparr>\<rparr>"
  have cs: "clearSections field cur = (?cleared, True)"
    using f d by (auto simp add: clearSections_def)
  have st: "handleFieldClearing render field fd st =
      st\<lparr>instructionStructure := ?cleared,
         instructionDisplay := (instructionDisplay st)
           \<lparr>english := reconstructInstructionContent ?cleared,
            translated := (if truthy (reconstructInstructionContent ?cleared)
                           then translated (instructionDisplay st) else placeholder)\<rparr>\<rparr>"
    using cs by (simp add: handleFieldClearing_def cur [symmetric] Let_def)
  have r: "reconstructInstructionContent ?cleared =
      reconstructInstructionContent
        (cur\<lparr>sections := (sections cur)\<lparr>dosageLine := [], dosageLineUserContent := []\<rparr>\<rparr>)"
    using reconstruct_without_dosageLine
      [of "cur\<lparr>sections := (sections cur)\<lparr>dosageLine := [], dosageLineUserContent := []\<rparr>\<rparr>"
          "dosageLineUserContent (sections cur)"]
    by simp
  show ?thesis
    by (simp add: st r)
qed

lemma withField_text:
  "field \<in> {Dosage, Frequency, Interval} \<Longrightarrow>
   withField fd field (Text s) =
     Some (case field of Dosage \<Rightarrow> fd\<lparr>dosage := s\<rparr> | Frequency \<Rightarrow> fd\<lparr>frequency := s\<rparr>
           | _ \<Rightarrow> fd\<lparr>interval := s\<rparr>)"
  by (auto simp add: withField_def)

text \<open>
  C10, as the claim states it, fails for the interval field. The clearing handler is called
  from the change event of the field only, and the generation handler runs in the same event.
  The form holds Panado, one tablet, daily, every 8 hours, in the morning, and the dosage line
  on display ends in the inline text \<^verbatim>\<open>with water\<close>. When the interval is cleared, the name,
  the dosage and the frequency are still set: the generation handler parses the text of the
  render again, composes the dosage line without the interval, keeps the inline text, and
  overwrites the display. The pane shows the inline text after the new dosage line.
\<close>

theorem interval_clearing_counterexample:
  "dosageLine (sections (parseInstructionContent (english (instructionDisplay intervalRender)) False))
     = INFO @ js '' Take 1 tablet daily every 8 hours.''
   \<and> dosageLineUserContent
       (sections (parseInstructionContent (english (instructionDisplay intervalRender)) False))
     = inlineWords
   \<and> map_option (\<lambda>st'. english (instructionDisplay st'))
       (handleMedicationChange asciiCase rejectingLookups intervalRender Interval (Text []) intervalRender)
     = Some (js ''Panado'' @ [NL] @ INFO @ js '' Take 1 tablet daily. with water'' @ [NL]
        @ js ''after meals'' @ [NL] @ CLOCK @ js '' morning '' @ [0xD83C, 0xDF05])
   \<and> includesStr
       (js ''Panado'' @ [NL] @ INFO @ js '' Take 1 tablet daily. with water'' @ [NL]
        @ js ''after meals'' @ [NL] @ CLOCK @ js '' morning '' @ [0xD83C, 0xDF05])
       inlineWords"
proof -
  have a: "dosageLine (sections (parseInstructionContent (english (instructionDisplay intervalRender)) False))
     = INFO @ js '' Take 1 tablet daily every 8 hours.''"
    by code_simp
  have b: "dosageLineUserContent
       (sections (parseInstructionContent (english (instructionDisplay intervalRender)) False))
     = inlineWords"
    by code_simp
  have c: "map_option (\<lambda>st'. english (instructionDisplay st'))
       (handleMedicationChange asciiCase rejectingLookups intervalRender Interval (Text []) intervalRender)
     = Some (js ''Panado'' @ [NL] @ INFO @ js '' Take 1 tablet daily. with water'' @ [NL]
        @ js ''after meals'' @ [NL] @ CLOCK @ js '' morning '' @ [0xD83C, 0xDF05])"
    by code_simp
  have d: "includesStr
       (js ''Panado'' @ [NL] @ INFO @ js '' Take 1 tablet daily. with water'' @ [NL]
        @ js ''after meals'' @ [NL] @ CLOCK @ js '' morning '' @ [0xD83C, 0xDF05])
       inlineWords"
    by code_simp
  show ?thesis
    using a b c d by blast
qed

text \<open>
  C10, amended. The displayed text has a dosage line with inline user text after its period.
  The event that clears the dosage or the frequency field, or the interval field of a form
  in which the name, the dosage and the frequency are not all set, ends as follows. If one of
  the name, the dosage and the frequency is still set, the stored structure still holds the
  inline text, and the displayed English text is the reassembly of the parsed structure
  without the dosage line and without the inline text. If none of them is set, the structure
  is reset and the displayed English text is empty.
\<close>

theorem clearing_event_drops_inline_text:
  assumes f: "field \<in> {Dosage, Frequency, Interval}"
    and cur: "cur = parseInstructionContent (english (instructionDisplay render)) False"
    and d: "truthy (dosageLine (sections cur))"
    and u: "truthy (dosageLineUserContent (sections cur))"
    and i: "field = Interval \<Longrightarrow>
              \<not> (truthy (name (medicationForm render)) \<and> truthy (dosage (medicationForm render))
                 \<and> truthy (frequency (medicationForm render)))"
  shows "\<exists>fd' st'.
      withField (medicationForm render) field (Text []) = Some fd'
      \<and> handleMedicationChange rt lookups render field (Text []) st = Some st'
      \<and> medicationForm st' = fd'
      \<and> (if truthy (name fd') \<or> truthy (dosage fd') \<or> truthy (frequency fd') then
           dosageLineUserContent (sections (instructionStructure st'))
             = dosageLineUserContent (sections cur)
           \<and> english (instructionDisplay st')
             = reconstructInstructionContent
                 (cur\<lparr>sections := (sections cur)\<lparr>dosageLine := [], dosageLineUserContent := []\<rparr>\<rparr>)
         else
           instructionStructure st' = emptyStructure \<and> english (instructionDisplay st') = [])"
proof -
  obtain fd' where w: "withField (medicationForm render) field (Text []) = Some fd'"
    using withField_text [OF f] by blast
  have inc: "\<not> (truthy (name fd') \<and> truthy (dosage fd') \<and> truthy (frequency fd'))"
    using f i w by (auto simp add: withField_def truthy_def)
  let ?st1 = "handleFieldClearing render field fd' (st\<lparr>medicationForm := fd'\<rparr>)"
  have h: "handleMedicationChange rt lookups render field (Text []) st
      = Some (generateInstruction rt lookups render fd' ?st1)"
    using f w by (auto simp add: handleMedicationChange_def isCleared_def regenerates_def Let_def)
  note c = handleFieldClearing_dosageLine [OF f cur d, of fd' "st\<lparr>medicationForm := fd'\<rparr>"]
  show ?thesis
  proof (cases "truthy (name fd') \<or> truthy (dosage fd') \<or> truthy (frequency fd')")
    case True
    then have "generateInstruction rt lookups render fd' ?st1 = ?st1"
      using inc by (rule generateInstruction_partial)
    then show ?thesis
      using True w h c by simp
  next
    case False
    then have "generateInstruction rt lookups render fd' ?st1 =
      updateActiveTabData render fd'
       ((instructionDisplay render)\<lparr>english := [], translated := placeholder\<rparr>)
       (?st1\<lparr>instructionDisplay := (instructionDisplay render)\<lparr>english := [], translated := placeholder\<rparr>,
           instructionStructure := emptyStructure\<rparr>)"
      by (simp add: generateInstruction_all_empty)
    then show ?thesis
      using False w h c by (simp add: updateActiveTabData_def Let_def)
  qed
qed

theorem clearing_event_drops_inline_text_witness:
  "Frequency \<in> {Dosage, Frequency, Interval}
   \<and> dosageLine (sections (parseInstructionContent inlineText False))
       = INFO @ js '' Take 1 tablet daily.''
   \<and> dosageLineUserContent (sections (parseInstructionContent inlineText False)) = inlineWords
   \<and> Frequency \<noteq> Interval
   \<and> (\<exists>st'. handleMedicationChange asciiCase rejectingLookups inlineRender Frequency (Text []) inlineRender
           = Some st'
        \<and> medicationForm st' = morningForm\<lparr>frequency := []\<rparr>
        \<and> dosageLineUserContent (sections (instructionStructure st')) = inlineWords
        \<and> english (instructionDisplay st') = js ''Panadoafter meals'' @ [NL] @ CLOCK @ js '' morning'')"
proof -
  have e: "english (instructionDisplay inlineRender) = inlineText"
    by (simp add: inlineRender_def showing_english)
  have m: "medicationForm inlineRender = morningForm"
    by (simp add: inlineRender_def)
  have d: "dosageLine (sections (parseInstructionContent inlineText False))
      = INFO @ js '' Take 1 tablet daily.''"
    by code_simp
  have u: "dosageLineUserContent (sections (parseInstructionContent inlineText False)) = inlineWords"
    by code_simp
  have r: "reconstructInstructionContent
      ((parseInstructionContent inlineText False)
         \<lparr>sections := (sections (parseInstructionContent inlineText False))
            \<lparr>dosageLine := [], dosageLineUserContent := []\<rparr>\<rparr>)
      = js ''Panadoafter meals'' @ [NL] @ CLOCK @ js '' morning''"
    by code_simp
  have t: "truthy (dosageLine (sections (parseInstructionContent inlineText False)))"
    "truthy (dosageLineUserContent (sections (parseInstructionContent inlineText False)))"
    by (simp_all add: d u truthy_def inlineWords_def)
  have w: "withField morningForm Frequency (Text []) = Some (morningForm\<lparr>frequency := []\<rparr>)"
    by (simp add: withField_def)
  have n: "truthy (name (morningForm\<lparr>frequency := []\<rparr>))"
    by (simp add: morningForm_def truthy_def)
  from clearing_event_drops_inline_text [of Frequency "parseInstructionContent inlineText False"
      inlineRender asciiCase rejectingLookups inlineRender, unfolded e m, OF _ _ t]
  obtain fd' st' where
    "withField morningForm Frequency (Text []) = Some fd'"
    "handleMedicationChange asciiCase rejectingLookups inlineRender Frequency (Text []) inlineRender = Some st'"
    "medicationForm st' = fd'"
    "(if truthy (name fd') \<or> truthy (dosage fd') \<or> truthy (frequency fd') then
           dosageLineUserContent (sections (instructionStructure st'))
             = dosageLineUserContent (sections (parseInstructionContent inlineText False))
           \<and> english (instructionDisplay st')
             = reconstructInstructionContent
                 ((parseInstructionContent inlineText False)\<lparr>sections := (sections (parseInstructionContent inlineText False))\<lparr>dosageLine := [], dosageLineUserContent := []\<rparr>\<rparr>)
         else
           instructionStructure st' = emptyStructure \<and> english (instructionDisplay st') = [])"
    by auto
  then show ?thesis
    using w n by (auto simp add: d u r)
qed

section \<open>Composition\<close>

text \<open>
  C7. For a form with name, dosage and frequency non-empty, the generation handler composes:
  as name line the name up to its first comma; as dosage line the information glyph,
  \<open>Take\<close>, the dosage, the lowercased frequency and, when the interval is not empty, the
  lowercased interval, closed by a period; as time-of-day line the clock glyph and the periods
  found in the lowercased time-of-day text, each with its emoji and joined by a comma and a
  space (the lowercased text itself when none is found); the header \<open>Precautions\<close> and one
  bullet line for each precaution. The composed text is the reassembly of these sections
  around the user content; on an empty pane (and a time-of-day text without line break) it is
  the name line, the dosage line, the time-of-day line, the header and the bullet lines, in
  this order. The English pane shows the composed text, unless a patient language is set
  while the lookups are not loaded.
\<close>

theorem composition_lines:
  assumes "truthy (name fd)" and "truthy (dosage fd)" and "truthy (frequency fd)"
  shows
    "(let st' = generateInstruction rt lookups render fd st;
          sec = sections (instructionStructure st');
          composed = englishGenerated (lastGenerated (instructionStructure st'));
          found = filter (\<lambda>p. includesStr (toLowerCase rt (timeOfDay fd)) (fst p)) timeEmojis
      in medicationName sec = takeWhile (\<lambda>c. c \<noteq> COMMA) (name fd)
         \<and> dosageLine sec =
             INFO @ js '' Take '' @ dosage fd @ [SPACE] @ toLowerCase rt (frequency fd)
             @ (if interval fd = [] then [] else [SPACE] @ toLowerCase rt (interval fd)) @ [PERIOD]
         \<and> timeOfDaySection sec =
             (if timeOfDay fd = [] then []
              else CLOCK @ [SPACE]
                   @ (if found = [] then toLowerCase rt (timeOfDay fd)
                      else joinWith (js '', '') (map (\<lambda>p. fst p @ [SPACE] @ snd p) found)))
         \<and> precautionsHeader sec = (if precautions fd = [] then [] else js ''Precautions'')
         \<and> precautionsList sec = map (\<lambda>p. BULLET @ [SPACE] @ p) (precautions fd)
         \<and> composed = reconstructInstructionContent (instructionStructure st')
         \<and> (english (instructionDisplay render) = [] \<and> NL \<notin> set (toLowerCase rt (timeOfDay fd))
              \<longrightarrow> composed = composedText rt fd)
         \<and> (truthy (patientLanguage render)
               \<and> \<not> (translationsLoaded render \<and> medicationsLoaded render)
              \<or> english (instructionDisplay st') = composed))"
proof -
  let ?cur = "parseInstructionContent (english (instructionDisplay render)) False"
  have g: "generateInstruction rt lookups render fd st = composeInstruction rt lookups render fd st"
    using assms by (rule generateInstruction_complete)
  have r: "reconstructInstructionContent (instructionStructure (composeInstruction rt lookups render fd st))
      = reconstructInstructionContent (composeSections rt fd ?cur)"
    by (rule reconstruct_cong) (simp_all add: compose_structure)
  have e: "english (instructionDisplay render) = [] \<Longrightarrow> NL \<notin> set (toLowerCase rt (timeOfDay fd)) \<Longrightarrow>
      reconstructInstructionContent (composeSections rt fd ?cur) = composedText rt fd"
    by (simp add: parse_empty reconstruct_composed_empty)
  have s: "sections (composeSections rt fd ?cur) =
      \<lparr> medicationName = takeWhile (\<lambda>c. c \<noteq> COMMA) (name fd),
        dosageLine = INFO @ js '' Take '' @ dosage fd @ [SPACE] @ toLowerCase rt (frequency fd)
             @ (if interval fd = [] then [] else [SPACE] @ toLowerCase rt (interval fd)) @ [PERIOD],
        dosageLineUserContent = dosageLineUserContent (sections ?cur),
        timeOfDaySection =
          (if timeOfDay fd = [] then [] else CLOCK @ [SPACE] @ formatTimeOfDay rt (timeOfDay fd)),
        precautionsHeader = (if precautions fd = [] then [] else js ''Precautions''),
        precautionsList = map (\<lambda>p. BULLET @ [SPACE] @ p) (precautions fd) \<rparr>"
    by (simp add: composeSections_def first_segment truthy_def Let_def)
  show ?thesis
    using e by (simp add: g compose_structure compose_english r s formatTimeOfDay_filter Let_def)
qed

theorem composition_lines_witness:
  "truthy (name paracetamolForm) \<and> truthy (dosage paracetamolForm)
   \<and> truthy (frequency paracetamolForm)
   \<and> english (instructionDisplay initialPageState) = []
   \<and> NL \<notin> set (toLowerCase asciiCase (timeOfDay paracetamolForm))
   \<and> (let st' = generateInstruction asciiCase rejectingLookups initialPageState paracetamolForm
                   initialPageState;
           sec = sections (instructionStructure st')
       in medicationName sec = js ''Paracetamol''
          \<and> dosageLine sec = INFO @ js '' Take 500mg tablet three times daily every 8 hours.''
          \<and> timeOfDaySection sec =
               CLOCK @ js '' morning '' @ [0xD83C, 0xDF05] @ js '', afternoon '' @ [0x2600, 0xFE0F]
               @ js '', evening '' @ [0xD83C, 0xDF06]
          \<and> precautionsHeader sec = js ''Precautions''
          \<and> precautionsList sec = [BULLET @ js '' Take with food'']
          \<and> english (instructionDisplay st') = composedText asciiCase paracetamolForm
          \<and> composedText asciiCase paracetamolForm = paracetamolText)"
proof -
  let ?st = "generateInstruction asciiCase rejectingLookups initialPageState paracetamolForm
      initialPageState"
  have t: "truthy (name paracetamolForm)" "truthy (dosage paracetamolForm)"
    "truthy (frequency paracetamolForm)"
    by (simp_all add: paracetamolForm_def truthy_def)
  have i: "english (instructionDisplay initialPageState) = []"
    "\<not> truthy (patientLanguage initialPageState)"
    by (simp_all add: initialPageState_def initialDisplay_def truthy_def Let_def)
  have n: "NL \<notin> set (toLowerCase asciiCase (timeOfDay paracetamolForm))"
    by code_simp
  have c: "composedText asciiCase paracetamolForm = paracetamolText"
    by code_simp
  have s: "sections (instructionStructure ?st)
      = \<lparr> medicationName = js ''Paracetamol'',
          dosageLine = INFO @ js '' Take 500mg tablet three times daily every 8 hours.'',
          dosageLineUserContent = [],
          timeOfDaySection =
            CLOCK @ js '' morning '' @ [0xD83C, 0xDF05] @ js '', afternoon '' @ [0x2600, 0xFE0F]
            @ js '', evening '' @ [0xD83C, 0xDF06],
          precautionsHeader = js ''Precautions'',
          precautionsList = [BULLET @ js '' Take with food''] \<rparr>"
    by code_simp
  note w = composition_lines [OF t, of asciiCase rejectingLookups initialPageState initialPageState]
  have a: "englishGenerated (lastGenerated (instructionStructure ?st))
      = composedText asciiCase paracetamolForm"
    using w i n by (auto simp add: Let_def)
  have b: "english (instructionDisplay ?st) = englishGenerated (lastGenerated (instructionStructure ?st))"
    using w i n by (auto simp add: Let_def)
  show ?thesis
    using a b by (simp add: t i n c s Let_def)
qed

section \<open>Blank lines in user content\<close>

text \<open>
  C6. The parser returns a structure for every text. It does not keep every line that it
  leaves to the user content: in \<open>blankLineText\<close> the second of the three lines is empty and
  is not a generated section, and the user-content slot after the medication name holds the
  third line only, not the empty line joined with the third line.
\<close>

theorem blank_line_dropped:
  "splitOn NL blankLineText = [js ''Panado'', [], js ''after meals'']
   \<and> medicationName (sections (parseInstructionContent blankLineText False)) = js ''Panado''
   \<and> userContent (parseInstructionContent blankLineText False) =
       \<lparr> beforeMedication = [], afterMedication = js ''after meals'', afterDosage = [],
         afterTimeOfDay = [], afterPrecautions = [] \<rparr>
   \<and> afterMedication (userContent (parseInstructionContent blankLineText False))
       \<noteq> [] @ [NL] @ js ''after meals''"
  by code_simp

section \<open>The round trip through reassembly and parsing\<close>

text \<open>
  C1. \<open>decimalStructure\<close> holds the name line and the dosage line that the composer builds
  for \<open>decimalForm\<close>, whose dosage is \<open>2.5ml\<close>, and nothing else. Parsing its reassembled text
  does not give the structure back: the parser cuts the dosage line at the decimal point and
  takes the rest of the sentence for inline user text.
\<close>

theorem round_trip_fails_on_decimal_dosage:
  "reconstructInstructionContent decimalStructure = decimalText
   \<and> parseInstructionContent (reconstructInstructionContent decimalStructure) False =
       decimalStructure\<lparr>sections := (sections decimalStructure)
         \<lparr>dosageLine := INFO @ js '' Take 2.'', dosageLineUserContent := js ''5ml daily.''\<rparr>\<rparr>
   \<and> parseInstructionContent (reconstructInstructionContent decimalStructure) False
       \<noteq> decimalStructure"
  by code_simp

text \<open>
  The structure is the one the composer stores for the form (but for the record of the last
  generated text), and the next regeneration repeats the misread part of the sentence.
\<close>

lemma decimalStructure_composed:
  "instructionStructure
     (generateInstruction asciiCase rejectingLookups initialPageState decimalForm initialPageState)
   = decimalStructure\<lparr>lastGenerated :=
       \<lparr> englishGenerated = decimalText, translatedGenerated = [] \<rparr>\<rparr>"
  by code_simp

lemma decimal_dosage_regenerated:
  "english (instructionDisplay
     (generateInstruction asciiCase rejectingLookups (showing decimalText)
        (decimalForm\<lparr>frequency := js ''Twice daily''\<rparr>) (showing decimalText)))
   = js ''Panado syrup'' @ [NL] @ INFO @ js '' Take 2.5ml twice daily. 5ml daily.''"
  by code_simp

section \<open>Lookups that are not available\<close>

lemma bindE_Inr [simp]: "bindE (Inr x) f = f x"
  by (simp add: bindE_def)

lemma bindE_Inl [simp]: "bindE (Inl e) f = Inl e"
  by (simp add: bindE_def)

lemma backendLookups_simps [simp]:
  "lookupTake (backendLookups rt api) l = Inr (translateStatic api (js ''take'') l)"
  "lookupPrecautionsHeader (backendLookups rt api) l
     = Inr (translateStatic api (js ''precautionsHeader'') l)"
  "lookupDosage (backendLookups rt api) t l = Inr (translateOption rt api t l (js ''dosage''))"
  "lookupFrequency (backendLookups rt api) t l = Inr (translateOption rt api t l (js ''frequency''))"
  "lookupInterval (backendLookups rt api) t l = Inr (translateOption rt api t l (js ''intervals''))"
  "lookupTimeOfDay (backendLookups rt api) t l
     = Inr (translateOption rt api t l (js ''time_of_day''))"
  "lookupPrecautions (backendLookups rt api) ps l = Inr (translatePrecautions api ps l)"
  by (simp_all add: backendLookups_def)

lemma translateTimeWords_backend:
  "\<exists>t'. translateTimeWords rt (backendLookups rt api) language fd ws t = Inr t'"
  by (induction ws arbitrary: t) simp_all

lemma translation_steps_backend:
  "\<exists>t'. translateTakeStep rt (backendLookups rt api) language t = Inr t'"
  "\<exists>t'. translateHeaderStep (backendLookups rt api) language t = Inr t'"
  "\<exists>t'. translateDosageStep (backendLookups rt api) language fd t = Inr t'"
  "\<exists>t'. translateFrequencyStep rt (backendLookups rt api) language fd t = Inr t'"
  "\<exists>t'. translateIntervalStep rt (backendLookups rt api) language fd t = Inr t'"
  "\<exists>t'. translateTimeOfDayStep rt (backendLookups rt api) language fd t = Inr t'"
  "\<exists>t'. translatePrecautionsStep (backendLookups rt api) language fd t = Inr t'"
  using translateTimeWords_backend [of rt api language fd timeWords t]
  by (simp_all add: translateTakeStep_def translateHeaderStep_def translateDosageStep_def
      translateFrequencyStep_def translateIntervalStep_def translateTimeOfDayStep_def
      translatePrecautionsStep_def Let_def)

lemma translateText_backend:
  "\<exists>t. translateText rt (backendLookups rt api) txt language fd = Inr t"
proof -
  obtain t1 where 1: "translateTakeStep rt (backendLookups rt api) language txt = Inr t1"
    using translation_steps_backend(1) by blast
  obtain t2 where 2: "translateHeaderStep (backendLookups rt api) language t1 = Inr t2"
    using translation_steps_backend(2) by blast
  obtain t3 where 3: "translateDosageStep (backendLookups rt api) language fd t2 = Inr t3"
    using translation_steps_backend(3) by blast
  obtain t4 where 4: "translateFrequencyStep rt (backendLookups rt api) language fd t3 = Inr t4"
    using translation_steps_backend(4) by blast
  obtain t5 where 5: "translateIntervalStep rt (backendLookups rt api) language fd t4 = Inr t5"
    using translation_steps_backend(5) by blast
  obtain t6 where 6: "translateTimeOfDayStep rt (backendLookups rt api) language fd t5 = Inr t6"
    using translation_steps_backend(6) by blast
  obtain t7 where 7: "translatePrecautionsStep (backendLookups rt api) language fd t6 = Inr t7"
    using translation_steps_backend(7) by blast
  show ?thesis
    by (simp add: translateText_def 1 2 3 4 5 6 7)
qed

lemma zuluRender_simps [simp]:
  "translationsLoaded (zuluRender t)" "medicationsLoaded (zuluRender t)"
  "instructionDisplay (zuluRender t) = initialDisplay\<lparr>english := t\<rparr>"
  by (simp_all add: zuluRender_def showing_def initialPageState_def Let_def)

lemma panadoComposed_truthy: "truthy panadoComposed" "truthy isiZulu"
  by (simp_all add: truthy_def panadoComposed_def isiZulu_def)

lemma rejected_translation:
  "translateText rt rejectingLookups txt language fd = Inl RequestFailed"
  by (simp add: translateText_def translateTakeStep_def rejectingLookups_def)

text \<open>
  C9, as the claim states it, fails. When the backend fails every request, the lookup
  helpers return their argument: the translated pane then shows the text with the key
  \<open>precautionsHeader\<close> in place of the header and no error indicator. When a lookup promise
  rejects, the translated pane shows the error indicator alone, not the English text.
\<close>

theorem failed_lookup_counterexample:
  "instructionDisplay
     (generateTranslation asciiCase (backendLookups asciiCase failingApi) (zuluRender panadoComposed)
        panadoComposed isiZulu panadoForm (Some (instructionDisplay (zuluRender panadoComposed)))
        (zuluRender panadoComposed))
    = \<lparr> english = panadoComposed,
        translated =
          js ''Panado'' @ [NL] @ INFO @ js '' Take 1 tablet daily.'' @ [NL]
          @ js ''precautionsHeader'' @ [NL] @ BULLET @ js '' Take with food'' @ [NL],
        selectedLanguage = isiZulu \<rparr>
   \<and> instructionDisplay
     (generateTranslation asciiCase rejectingLookups (zuluRender panadoComposed)
        panadoComposed isiZulu panadoForm (Some (instructionDisplay (zuluRender panadoComposed)))
        (zuluRender panadoComposed))
    = \<lparr> english = panadoComposed,
        translated = js ''Translation error - showing English version'',
        selectedLanguage = isiZulu \<rparr>"
proof -
  have t: "translateText asciiCase (backendLookups asciiCase failingApi) panadoComposed
        isiZulu panadoForm
      = Inr (js ''Panado'' @ [NL] @ INFO @ js '' Take 1 tablet daily.'' @ [NL]
          @ js ''precautionsHeader'' @ [NL] @ BULLET @ js '' Take with food'' @ [NL])"
    by code_simp
  show ?thesis
    using panadoComposed_truthy
    by (simp add: generateTranslation_def t rejected_translation initialDisplay_def Let_def)
qed

text \<open>
  C9, amended. For a non-empty text and language: while the lookups are not loaded, the
  translated pane is set to \<open>Loading...\<close>; when the translation fails, the display is the one
  handed over by the caller (or the one of the render) with the translated pane set to the
  error indicator and the language selected, so that the English text is untouched; in both
  cases the handler returns a state. With the lookup helpers of the repository the
  translation never fails, whatever the backend answers.
\<close>

theorem translation_unavailable:
  assumes "truthy text" and "truthy language"
  shows
    "(\<not> (translationsLoaded render \<and> medicationsLoaded render) \<longrightarrow>
        translated (instructionDisplay
          (generateTranslation rt lookups render text language fd ei st)) = js ''Loading...'')
     \<and> (translationsLoaded render \<and> medicationsLoaded render
          \<and> translateText rt lookups text language fd = Inl e \<longrightarrow>
        instructionDisplay (generateTranslation rt lookups render text language fd ei st)
          = (case ei of Some d \<Rightarrow> d | None \<Rightarrow> instructionDisplay render)
              \<lparr>translated := js ''Translation error - showing English version'',
               selectedLanguage := language\<rparr>)
     \<and> (\<exists>t. translateText rt (backendLookups rt api) text language fd = Inr t)"
  using assms translateText_backend [of rt api "text" language fd]
  by (simp add: generateTranslation_def Let_def)

theorem translation_unavailable_witness:
  "truthy panadoComposed \<and> truthy isiZulu
   \<and> \<not> (translationsLoaded (showing panadoComposed) \<and> medicationsLoaded (showing panadoComposed))
   \<and> translated (instructionDisplay
        (generateTranslation asciiCase rejectingLookups (showing panadoComposed) panadoComposed
           isiZulu panadoForm None (showing panadoComposed))) = js ''Loading...''
   \<and> translationsLoaded (zuluRender panadoComposed) \<and> medicationsLoaded (zuluRender panadoComposed)
   \<and> translateText asciiCase rejectingLookups panadoComposed isiZulu panadoForm
        = Inl RequestFailed
   \<and> instructionDisplay
        (generateTranslation asciiCase rejectingLookups (zuluRender panadoComposed) panadoComposed
           isiZulu panadoForm None (zuluRender panadoComposed))
       = (instructionDisplay (zuluRender panadoComposed))
           \<lparr>translated := js ''Translation error - showing English version'',
            selectedLanguage := isiZulu\<rparr>"
proof -
  have l: "\<not> (translationsLoaded (showing panadoComposed) \<and> medicationsLoaded (showing panadoComposed))"
    by (simp add: showing_def initialPageState_def Let_def)
  show ?thesis
    using panadoComposed_truthy l
      translation_unavailable [OF panadoComposed_truthy, of "showing panadoComposed" asciiCase
        rejectingLookups panadoForm None "showing panadoComposed" RequestFailed failingApi]
      translation_unavailable [OF panadoComposed_truthy, of "zuluRender panadoComposed" asciiCase
        rejectingLookups panadoForm None "zuluRender panadoComposed" RequestFailed failingApi]
    by (simp add: rejected_translation)
qed

text \<open>
  While the lookups are not loaded the handler builds the display from the one of its
  render, so the English text composed by the same call is stored in the structure and not
  shown.
\<close>

lemma loading_discards_composed_english:
  "(let render = (showing [])\<lparr>patientLanguage := isiZulu\<rparr>;
        st = generateInstruction asciiCase rejectingLookups render panadoForm render
    in instructionDisplay st
         = \<lparr> english = [], translated = js ''Loading...'', selectedLanguage = isiZulu \<rparr>
       \<and> englishGenerated (lastGenerated (instructionStructure st)) = panadoComposed)"
  by code_simp

section \<open>The scope of a substitution\<close>

lemma getSubstitution_plain: "DOLLAR \<notin> set r \<Longrightarrow> getSubstitution m a b r = r"
  by (induction m a b r rule: getSubstitution.induct) auto

lemma replaceFrom_first:
  "replaceFrom p r passed rest =
     (case indexOfStr rest p of
        None \<Rightarrow> rest
      | Some i \<Rightarrow>
          take i rest @ getSubstitution p (rev passed @ take i rest) (drop (i + length p) rest) r
          @ drop (i + length p) rest)"
proof (induction rest arbitrary: passed)
  case Nil
  then show ?case by simp
next
  case (Cons c cs)
  show ?case
  proof (cases "prefix p (c # cs)")
    case True
    then show ?thesis by simp
  next
    case False
    then show ?thesis
      using Cons.IH [of "c # passed"] by (simp split: option.splits)
  qed
qed

lemma replaceStr_first: "replaceStr s p r = replacedFirst s p r"
  by (simp add: replaceStr_def replacedFirst_def replaceFrom_first split: option.splits)

lemma indexOfStr_first:
  "indexOfStr s p = Some i \<Longrightarrow>
     i \<le> length s \<and> prefix p (drop i s) \<and> (\<forall>j<i. \<not> prefix p (drop j s))"
proof (induction s arbitrary: i)
  case Nil
  then show ?case by (simp split: if_splits)
next
  case (Cons c cs)
  show ?case
  proof (cases "prefix p (c # cs)")
    case True
    with Cons.prems show ?thesis by simp
  next
    case False
    with Cons.prems obtain k where k: "indexOfStr cs p = Some k" "i = Suc k"
      by auto
    from Cons.IH [OF k(1)] False k(2) show ?thesis
      by (auto simp add: less_Suc_eq_0_disj)
  qed
qed

lemma indexOfStr_none:
  "indexOfStr s p = None \<Longrightarrow> j \<le> length s \<Longrightarrow> \<not> prefix p (drop j s)"
proof (induction s arbitrary: j)
  case Nil
  then show ?case by (simp split: if_splits)
next
  case (Cons c cs)
  then show ?case
    by (cases j) (auto split: if_splits)
qed




section \<open>User lines across regeneration\<close>

subsection \<open>Splitting and classifying the lines of a composed text\<close>

lemma splitOn_not_Nil: "splitOn d s \<noteq> []"
  by (induction s) (auto split: list.splits)

lemma splitOn_no_separator: "d \<notin> set s \<Longrightarrow> splitOn d s = [s]"
  by (induction s) auto

lemma splitOn_append: "d \<notin> set a \<Longrightarrow> splitOn d (a @ d # b) = a # splitOn d b"
  by (induction a) auto

lemma splitOn_lines:
  "\<forall>p\<in>set ps. d \<notin> set (f p) \<Longrightarrow>
   splitOn d (concat (map (\<lambda>p. f p @ [d]) ps) @ rest) = map f ps @ splitOn d rest"
  by (induction ps) (simp_all add: splitOn_append)

lemma trim_Cons:
  "\<not> isWhiteSpace c \<Longrightarrow> trim (c # s) = c # rev (dropWhile isWhiteSpace (rev s))"
  by (simp add: trim_def dropWhile_append)

lemma trimEnd_Cons:
  "\<not> isWhiteSpace c \<Longrightarrow>
   rev (dropWhile isWhiteSpace (rev (c # s))) = c # rev (dropWhile isWhiteSpace (rev s))"
  by (simp add: dropWhile_append)

lemma trim_unchanged:
  "s \<noteq> [] \<Longrightarrow> \<not> isWhiteSpace (hd s) \<Longrightarrow> \<not> isWhiteSpace (last s) \<Longrightarrow> trim s = s"
proof -
  assume s: "s \<noteq> []" and h: "\<not> isWhiteSpace (hd s)" and l: "\<not> isWhiteSpace (last s)"
  from s h have 1: "dropWhile isWhiteSpace s = s"
    by (cases s) simp_all
  from s l have 2: "dropWhile isWhiteSpace (rev s) = rev s"
    by (cases s rule: rev_cases) simp_all
  show ?thesis
    by (simp add: trim_def 1 2)
qed

lemma trim_empty [simp]: "trim [] = []"
  by (simp add: trim_def)

lemma not_endsWith_NL: "NL \<notin> set s \<Longrightarrow> \<not> endsWith s [NL]"
  by (auto simp add: endsWith_def suffix_def)

lemma parseSummary_initial:
  "parseSummary initialParseState =
     (False, False, BeforeMedication,
      \<lparr> beforeMedication = [], afterMedication = [], afterDosage = [], afterTimeOfDay = [],
        afterPrecautions = [] \<rparr>, [])"
  by (simp add: parseSummary_def initialParseState_def emptyStructure_def)

lemma step_name:
  "parseSummary st = (False, ps, BeforeMedication, u, uc) \<Longrightarrow> trim l \<noteq> [] \<Longrightarrow>
   parseSummary (parseLine st l) = (True, ps, AfterMedication, u, uc)"
  by (simp add: parseSummary_def parseLine_def truthy_def Let_def)

lemma step_dosage:
  assumes "parseSummary st = (True, ps, sec, u, uc)" and "trim l = x @ [PERIOD]"
    and "PERIOD \<notin> set x" and "startsWith (trim l) INFO"
  shows "parseSummary (parseLine st l) = (True, ps, AfterDosage, u, uc)"
proof -
  have t: "takeWhile (\<lambda>c. c \<noteq> PERIOD) (x @ [PERIOD]) = x"
    using assms(3) by (induction x) auto
  have i: "indexOf (x @ [PERIOD]) PERIOD = Some (length x)"
    by (simp add: indexOf_def t)
  show ?thesis
    using assms(1,4) by (simp add: parseSummary_def parseLine_def i assms(2) truthy_def Let_def trimStart_def)
qed

lemma step_user_afterDosage:
  "parseSummary st = (True, False, AfterDosage, u, uc) \<Longrightarrow>
   \<not> startsWith (trim l) INFO \<Longrightarrow> \<not> startsWith (trim l) CLOCK \<Longrightarrow>
   \<not> matchesPrecautionsHeader (trim l) \<Longrightarrow>
   parseSummary (parseLine st l)
     = (True, False, AfterDosage, u\<lparr>afterDosage := appendLine (afterDosage u) l\<rparr>, uc)"
  by (simp add: parseSummary_def parseLine_def appendUserContent_def truthy_def Let_def)

lemma step_time:
  "parseSummary st = (True, ps, sec, u, uc) \<Longrightarrow> trim l \<noteq> [] \<Longrightarrow>
   \<not> startsWith (trim l) INFO \<Longrightarrow> startsWith (trim l) CLOCK \<Longrightarrow>
   parseSummary (parseLine st l) = (True, ps, AfterTimeOfDay, u, uc)"
  by (simp add: parseSummary_def parseLine_def truthy_def Let_def)

lemma step_blank_afterTimeOfDay:
  "parseSummary st = (True, ps, AfterTimeOfDay, u, uc) \<Longrightarrow>
   parseSummary (parseLine st [])
     = (True, ps, AfterTimeOfDay, u\<lparr>afterTimeOfDay := appendLine (afterTimeOfDay u) []\<rparr>, uc)"
  by (simp add: parseSummary_def parseLine_def appendUserContent_def truthy_def Let_def)

lemma step_header:
  "parseSummary st = (True, ps, sec, u, uc) \<Longrightarrow> trim l \<noteq> [] \<Longrightarrow>
   \<not> startsWith (trim l) INFO \<Longrightarrow> \<not> startsWith (trim l) CLOCK \<Longrightarrow>
   matchesPrecautionsHeader (trim l) \<Longrightarrow>
   parseSummary (parseLine st l) = (True, True, PrecautionsSection, u, uc)"
  by (simp add: parseSummary_def parseLine_def truthy_def Let_def)

lemma step_bullet:
  "parseSummary st = (True, True, sec, u, uc) \<Longrightarrow> trim l \<noteq> [] \<Longrightarrow>
   \<not> startsWith (trim l) INFO \<Longrightarrow> \<not> startsWith (trim l) CLOCK \<Longrightarrow>
   \<not> matchesPrecautionsHeader (trim l) \<Longrightarrow> startsWith (trim l) BULLET \<Longrightarrow>
   parseSummary (parseLine st l) = (True, True, sec, u, uc)"
  by (simp add: parseSummary_def parseLine_def truthy_def Let_def)

lemma step_blank_precautions:
  "parseSummary st = (True, True, PrecautionsSection, u, uc) \<Longrightarrow>
   parseSummary (parseLine st [])
     = (True, True, PrecautionsSection,
        u\<lparr>afterPrecautions := appendLine (afterPrecautions u) []\<rparr>, uc)"
  by (simp add: parseSummary_def parseLine_def appendUserContent_def truthy_def Let_def)

lemma bullet_line:
  "trim (0x2022 # SPACE # p) \<noteq> []"
  "\<not> startsWith (trim (0x2022 # SPACE # p)) INFO"
  "\<not> startsWith (trim (0x2022 # SPACE # p)) CLOCK"
  "\<not> matchesPrecautionsHeader (trim (0x2022 # SPACE # p))"
  "startsWith (trim (0x2022 # SPACE # p)) BULLET"
  by (simp_all add: trim_Cons isWhiteSpace_def startsWith_def matchesPrecautionsHeader_def
      headerWords_def canonicalize_def)

lemma steps_bullets:
  "parseSummary st = (True, True, sec, u, uc) \<Longrightarrow>
   parseSummary (foldl parseLine st (map (\<lambda>p. BULLET @ [SPACE] @ p) ps)) = (True, True, sec, u, uc)"
  by (induction ps arbitrary: st) (simp_all add: step_bullet bullet_line)

lemma header_line:
  "trim (js ''Precautions'') \<noteq> []"
  "\<not> startsWith (trim (js ''Precautions'')) INFO"
  "\<not> startsWith (trim (js ''Precautions'')) CLOCK"
  "matchesPrecautionsHeader (trim (js ''Precautions''))"
  by (simp_all add: trim_Cons isWhiteSpace_def startsWith_def matchesPrecautionsHeader_def
      headerWords_def canonicalize_def)

lemma time_line:
  "trim (timeOfDayLine rt fd) \<noteq> []"
  "\<not> startsWith (trim (timeOfDayLine rt fd)) INFO"
  "startsWith (trim (timeOfDayLine rt fd)) CLOCK"
  by (simp_all add: timeOfDayLine_def trim_Cons dropWhile_append isWhiteSpace_def startsWith_def)

lemma dosage_line:
  "trim (dosageSentence rt fd) =
     (INFO @ js '' Take '' @ dosage fd @ [SPACE] @ toLowerCase rt (frequency fd)
      @ (if interval fd = [] then [] else [SPACE] @ toLowerCase rt (interval fd))) @ [PERIOD]"
  "startsWith (trim (dosageSentence rt fd)) INFO"
proof -
  have "trim (dosageSentence rt fd) = dosageSentence rt fd"
    by (rule trim_unchanged) (simp_all add: dosageSentence_def isWhiteSpace_def)
  then show "trim (dosageSentence rt fd) =
     (INFO @ js '' Take '' @ dosage fd @ [SPACE] @ toLowerCase rt (frequency fd)
      @ (if interval fd = [] then [] else [SPACE] @ toLowerCase rt (interval fd))) @ [PERIOD]"
    "startsWith (trim (dosageSentence rt fd)) INFO"
    by (simp_all add: dosageSentence_def startsWith_def)
qed

lemma splitOn_precautionsBlock:
  assumes "NL \<notin> set t" and "\<forall>p\<in>set (precautions fd). NL \<notin> set p"
  shows "splitOn NL (t @ precautionsBlock fd) =
     (if precautions fd = [] then [t]
      else t # [] # js ''Precautions'' # map (\<lambda>p. BULLET @ [SPACE] @ p) (precautions fd) @ [[]])"
proof (cases "precautions fd = []")
  case True
  then show ?thesis
    using assms(1) by (simp add: precautionsBlock_def splitOn_no_separator)
next
  case False
  have c: "concat (map (\<lambda>p. BULLET @ [SPACE] @ p @ [NL]) (precautions fd))
      = concat (map (\<lambda>p. (BULLET @ [SPACE] @ p) @ [NL]) (precautions fd)) @ []"
    by simp
  have b: "splitOn NL (concat (map (\<lambda>p. BULLET @ [SPACE] @ p @ [NL]) (precautions fd)))
      = map (\<lambda>p. BULLET @ [SPACE] @ p) (precautions fd) @ [[]]"
    unfolding c using assms(2)
    by (subst splitOn_lines) simp_all
  have "splitOn NL (t @ precautionsBlock fd)
      = t # splitOn NL (NL # js ''Precautions'' @ NL #
          concat (map (\<lambda>p. BULLET @ [SPACE] @ p @ [NL]) (precautions fd)))"
    using False assms(1) splitOn_append [of NL t] by (simp add: precautionsBlock_def)
  also have "splitOn NL (NL # js ''Precautions'' @ NL #
          concat (map (\<lambda>p. BULLET @ [SPACE] @ p @ [NL]) (precautions fd)))
      = [] # splitOn NL (js ''Precautions'' @ NL #
          concat (map (\<lambda>p. BULLET @ [SPACE] @ p @ [NL]) (precautions fd)))"
    by simp
  also have "splitOn NL (js ''Precautions'' @ NL #
          concat (map (\<lambda>p. BULLET @ [SPACE] @ p @ [NL]) (precautions fd)))
      = js ''Precautions'' # splitOn NL
          (concat (map (\<lambda>p. BULLET @ [SPACE] @ p @ [NL]) (precautions fd)))"
    by (rule splitOn_append) simp
  finally show ?thesis
    using False b by simp
qed

lemma appendLine_empty [simp]: "appendLine [] l = l"
  by (simp add: appendLine_def truthy_def)

lemma parse_withUserLine:
  assumes nm: "trim (takeWhile (\<lambda>c. c \<noteq> COMMA) (name fd)) \<noteq> []"
    and single: "NL \<notin> set (name fd)" "NL \<notin> set (dosage fd)"
      "NL \<notin> set (toLowerCase rt (frequency fd))" "NL \<notin> set (toLowerCase rt (interval fd))"
      "NL \<notin> set (toLowerCase rt (timeOfDay fd))" "\<forall>p\<in>set (precautions fd). NL \<notin> set p"
    and period: "PERIOD \<notin> set (dosage fd)" "PERIOD \<notin> set (toLowerCase rt (frequency fd))"
      "PERIOD \<notin> set (toLowerCase rt (interval fd))"
    and u: "NL \<notin> set U" "\<not> startsWith (trim U) INFO" "\<not> startsWith (trim U) CLOCK"
      "\<not> matchesPrecautionsHeader (trim U)"
  shows "userContent (parseInstructionContent (withUserLine rt fd U) b) =
      \<lparr> beforeMedication = [], afterMedication = [], afterDosage = U, afterTimeOfDay = [],
        afterPrecautions = [] \<rparr>
    \<and> dosageLineUserContent (sections (parseInstructionContent (withUserLine rt fd U) b)) = []"
proof -
  let ?n = "takeWhile (\<lambda>c. c \<noteq> COMMA) (name fd)"
  let ?d = "dosageSentence rt fd"
  let ?t = "timeOfDayLine rt fd"
  let ?none = "\<lparr> beforeMedication = [], afterMedication = [], afterDosage = [], afterTimeOfDay = [],
        afterPrecautions = [] \<rparr>"
  let ?kept = "\<lparr> beforeMedication = [], afterMedication = [], afterDosage = U, afterTimeOfDay = [],
        afterPrecautions = [] \<rparr>"
  have n: "NL \<notin> set ?n"
    using single(1) by (auto dest: set_takeWhileD)
  have d: "NL \<notin> set ?d"
    using single(2,3,4) by (simp add: dosageSentence_def)
  have t: "NL \<notin> set ?t"
    using formatTimeOfDay_no_NL [OF single(5)] by (simp add: timeOfDayLine_def)
  have lines: "splitOn NL (withUserLine rt fd U) = ?n # ?d # U # splitOn NL (?t @ precautionsBlock fd)"
    using n d u(1) by (simp add: withUserLine_def splitOn_append)
  let ?S4 = "parseLine (parseLine (parseLine (parseLine initialParseState ?n) ?d) U) ?t"
  have p: "PERIOD \<notin> set (INFO @ js '' Take '' @ dosage fd @ [SPACE] @ toLowerCase rt (frequency fd)
      @ (if interval fd = [] then [] else [SPACE] @ toLowerCase rt (interval fd)))"
    using period by simp
  have s1: "parseSummary (parseLine initialParseState ?n) = (True, False, AfterMedication, ?none, [])"
    by (rule step_name [OF parseSummary_initial nm])
  have s2: "parseSummary (parseLine (parseLine initialParseState ?n) ?d)
      = (True, False, AfterDosage, ?none, [])"
    by (rule step_dosage [OF s1 dosage_line(1) p dosage_line(2)])
  have s3: "parseSummary (parseLine (parseLine (parseLine initialParseState ?n) ?d) U)
      = (True, False, AfterDosage, ?kept, [])"
    using step_user_afterDosage [OF s2 u(2,3,4)] by simp
  have s4: "parseSummary ?S4 = (True, False, AfterTimeOfDay, ?kept, [])"
    by (rule step_time [OF s3 time_line])
  have "\<exists>ps sec. parseSummary (foldl parseLine initialParseState (splitOn NL (withUserLine rt fd U)))
      = (True, ps, sec, ?kept, [])"
  proof (cases "precautions fd = []")
    case True
    then show ?thesis
      using s4 by (auto simp add: lines splitOn_precautionsBlock [OF t single(6)])
  next
    case False
    have s5: "parseSummary (parseLine ?S4 []) = (True, False, AfterTimeOfDay, ?kept, [])"
      using step_blank_afterTimeOfDay [OF s4] by simp
    have s6: "parseSummary (parseLine (parseLine ?S4 []) (js ''Precautions''))
        = (True, True, PrecautionsSection, ?kept, [])"
      by (rule step_header [OF s5 header_line])
    have s7: "parseSummary (foldl parseLine (parseLine (parseLine ?S4 []) (js ''Precautions''))
          (map (\<lambda>p. BULLET @ [SPACE] @ p) (precautions fd)))
        = (True, True, PrecautionsSection, ?kept, [])"
      by (rule steps_bullets [OF s6])
    have s8: "parseSummary (parseLine (foldl parseLine (parseLine (parseLine ?S4 []) (js ''Precautions''))
          (map (\<lambda>p. BULLET @ [SPACE] @ p) (precautions fd))) [])
        = (True, True, PrecautionsSection, ?kept, [])"
      using step_blank_precautions [OF s7] by simp
    show ?thesis
      using False s8 by (auto simp add: lines splitOn_precautionsBlock [OF t single(6)])
  qed
  then show ?thesis
    by (auto simp add: parseInstructionContent_def parseSummary_def)
qed

lemma reconstruct_withUserLine:
  assumes uc: "userContent cur =
      \<lparr> beforeMedication = [], afterMedication = [], afterDosage = U, afterTimeOfDay = [],
        afterPrecautions = [] \<rparr>"
    and inline: "dosageLineUserContent (sections cur) = []"
    and n: "takeWhile (\<lambda>c. c \<noteq> COMMA) (name fd) \<noteq> []"
    and tod: "timeOfDay fd \<noteq> []" "NL \<notin> set (toLowerCase rt (timeOfDay fd))"
    and u: "U \<noteq> []" "NL \<notin> set U"
  shows "reconstructInstructionContent (composeSections rt fd cur) = withUserLine rt fd U"
proof -
  have f: "NL \<notin> set (formatTimeOfDay rt (timeOfDay fd))"
    using tod(2) by (rule formatTimeOfDay_no_NL)
  have g: "\<not> prefix [NL] (rev (formatTimeOfDay rt (timeOfDay fd)) @ SPACE # xs)" for xs
    using f by (cases "formatTimeOfDay rt (timeOfDay fd)" rule: rev_cases) auto
  have h: "\<not> prefix [NL] (rev U)"
    using u by (cases U rule: rev_cases) auto
  show ?thesis
    using n tod(1) u(1)
    by (cases "interval fd = []"; cases "precautions fd = []";
        simp add: reconstructInstructionContent_def reassemble_def composeSections_def
          withUserLine_def dosageSentence_def timeOfDayLine_def precautionsBlock_def uc inline
          first_segment truthy_def Let_def comp_def endsWith_def suffix_to_prefix g h
          split del: if_split cong: if_cong)
qed

lemma composedText_lines:
  "takeWhile (\<lambda>c. c \<noteq> COMMA) (name fd) \<noteq> [] \<Longrightarrow> timeOfDay fd \<noteq> [] \<Longrightarrow>
   composedText rt fd =
     takeWhile (\<lambda>c. c \<noteq> COMMA) (name fd) @ [NL] @ dosageSentence rt fd @ [NL]
     @ timeOfDayLine rt fd @ precautionsBlock fd"
  by (simp add: composedText_def dosageSentence_def timeOfDayLine_def precautionsBlock_def Let_def)

subsection \<open>A typed line that the parser takes for a generated one\<close>

text \<open>C2, as the claim states it, fails. The parser tells the user's lines from the generated ones
  only by how a line starts: the two marker glyphs and the precautions header words. The pharmacist
  types the line \<^verbatim>\<open>Precautions\<close> between the dosage sentence and the time line of the text composed for
  Panado, one tablet daily in the morning, and then selects another frequency. The parser files the
  typed line as the precautions header; the form has no precautions, so the header is emptied, and
  the regenerated text has no trace of the line.\<close>

theorem recognised_user_line_counterexample:
  "withUserLine asciiCase morningForm headerLine
     = js ''Panado'' @ [NL] @ INFO @ js '' Take 1 tablet daily.'' @ [NL] @ js ''Precautions'' @ [NL]
       @ CLOCK @ js '' morning '' @ [0xD83C, 0xDF05]
   \<and> english (instructionDisplay
        (generateInstruction asciiCase rejectingLookups (showing (withUserLine asciiCase morningForm headerLine))
           (morningForm\<lparr>frequency := twiceDaily\<rparr>)
           (showing (withUserLine asciiCase morningForm headerLine))))
     = js ''Panado'' @ [NL] @ INFO @ js '' Take 1 tablet twice daily.'' @ [NL]
       @ CLOCK @ js '' morning '' @ [0xD83C, 0xDF05]
   \<and> \<not> includesStr
        (english (instructionDisplay
          (generateInstruction asciiCase rejectingLookups (showing (withUserLine asciiCase morningForm headerLine))
             (morningForm\<lparr>frequency := twiceDaily\<rparr>)
             (showing (withUserLine asciiCase morningForm headerLine)))))
        headerLine"
  by code_simp

subsection \<open>Lines that survive\<close>

text \<open>C2, amended. The form has a name whose part before the first comma is not blank, a dosage, a
  frequency and a time of day; no field holds a newline, and the dosage, the frequency and the interval
  hold no full stop. The text on display is the composed text with one line \<^term>\<open>U\<close> typed between
  the dosage sentence and the time line, where \<^term>\<open>U\<close> is not empty, is a single line, does not start
  with a marker glyph after trimming and is not a precautions header. When the pharmacist then selects
  another frequency, the regenerated text is the displayed text with the dosage sentence recomposed
  for the new frequency: the line \<^term>\<open>U\<close> is at the same place, and every other line is unchanged.
  That text is recorded as the last generated one, and it is put on display unless a patient language
  is set and the vocabularies are still loading.\<close>

theorem user_line_survives_regeneration:
  assumes req: "truthy (name fd)" "truthy (dosage fd)" "truthy (frequency fd)" "truthy newFrequency"
    and tod: "truthy (timeOfDay fd)"
    and nm: "trim (takeWhile (\<lambda>c. c \<noteq> COMMA) (name fd)) \<noteq> []"
    and single: "NL \<notin> set (name fd)" "NL \<notin> set (dosage fd)"
      "NL \<notin> set (toLowerCase rt (frequency fd))" "NL \<notin> set (toLowerCase rt (interval fd))"
      "NL \<notin> set (toLowerCase rt (timeOfDay fd))" "\<forall>p\<in>set (precautions fd). NL \<notin> set p"
    and period: "PERIOD \<notin> set (dosage fd)" "PERIOD \<notin> set (toLowerCase rt (frequency fd))"
      "PERIOD \<notin> set (toLowerCase rt (interval fd))"
    and u: "U \<noteq> []" "NL \<notin> set U" "\<not> startsWith (trim U) INFO" "\<not> startsWith (trim U) CLOCK"
      "\<not> matchesPrecautionsHeader (trim U)"
    and shown: "english (instructionDisplay render) = withUserLine rt fd U"
  shows
    "(let fd' = fd\<lparr>frequency := newFrequency\<rparr>;
          st' = generateInstruction rt lookups render fd' st;
          composed = englishGenerated (lastGenerated (instructionStructure st'));
          n = takeWhile (\<lambda>c. c \<noteq> COMMA) (name fd)
      in composedText rt fd
           = n @ [NL] @ dosageSentence rt fd @ [NL] @ timeOfDayLine rt fd @ precautionsBlock fd
         \<and> withUserLine rt fd U
           = n @ [NL] @ dosageSentence rt fd @ [NL] @ U @ [NL] @ timeOfDayLine rt fd
             @ precautionsBlock fd
         \<and> composed
           = n @ [NL] @ dosageSentence rt fd' @ [NL] @ U @ [NL] @ timeOfDayLine rt fd
             @ precautionsBlock fd
         \<and> dosageSentence rt fd'
           = INFO @ js '' Take '' @ dosage fd @ [SPACE] @ toLowerCase rt newFrequency
             @ (if interval fd = [] then [] else [SPACE] @ toLowerCase rt (interval fd)) @ [PERIOD]
         \<and> (truthy (patientLanguage render)
               \<and> \<not> (translationsLoaded render \<and> medicationsLoaded render)
              \<or> english (instructionDisplay st') = composed))"
proof -
  let ?fd = "fd\<lparr>frequency := newFrequency\<rparr>"
  let ?cur = "parseInstructionContent (english (instructionDisplay render)) False"
  have n: "takeWhile (\<lambda>c. c \<noteq> COMMA) (name fd) \<noteq> []"
    using nm by auto
  have t: "timeOfDay fd \<noteq> []"
    using tod by (simp add: truthy_def)
  have g: "generateInstruction rt lookups render ?fd st = composeInstruction rt lookups render ?fd st"
    using req by (simp add: generateInstruction_complete)
  have p: "userContent ?cur =
      \<lparr> beforeMedication = [], afterMedication = [], afterDosage = U, afterTimeOfDay = [],
        afterPrecautions = [] \<rparr>
    \<and> dosageLineUserContent (sections ?cur) = []"
    unfolding shown by (rule parse_withUserLine [OF nm single period u(2-5)])
  have r: "reconstructInstructionContent (composeSections rt ?fd ?cur) = withUserLine rt ?fd U"
    using p n t single(5) u(1,2) by (intro reconstruct_withUserLine) simp_all
  have w: "withUserLine rt ?fd U
      = takeWhile (\<lambda>c. c \<noteq> COMMA) (name fd) @ [NL] @ dosageSentence rt ?fd @ [NL] @ U @ [NL]
        @ timeOfDayLine rt fd @ precautionsBlock fd"
    by (simp add: withUserLine_def timeOfDayLine_def precautionsBlock_def)
  show ?thesis
    using composedText_lines [OF n t, of rt]
    by (simp add: Let_def g compose_structure compose_english r w)
      (simp add: withUserLine_def dosageSentence_def)
qed

theorem user_line_survives_regeneration_witness:
  "truthy (name paracetamolForm) \<and> truthy (dosage paracetamolForm)
   \<and> truthy (frequency paracetamolForm) \<and> truthy twiceDaily \<and> truthy (timeOfDay paracetamolForm)
   \<and> trim (takeWhile (\<lambda>c. c \<noteq> COMMA) (name paracetamolForm)) \<noteq> []
   \<and> NL \<notin> set (name paracetamolForm) \<and> NL \<notin> set (dosage paracetamolForm)
   \<and> NL \<notin> set (toLowerCase asciiCase (frequency paracetamolForm))
   \<and> NL \<notin> set (toLowerCase asciiCase (interval paracetamolForm))
   \<and> NL \<notin> set (toLowerCase asciiCase (timeOfDay paracetamolForm))
   \<and> list_all (\<lambda>p. NL \<notin> set p) (precautions paracetamolForm)
   \<and> PERIOD \<notin> set (dosage paracetamolForm)
   \<and> PERIOD \<notin> set (toLowerCase asciiCase (frequency paracetamolForm))
   \<and> PERIOD \<notin> set (toLowerCase asciiCase (interval paracetamolForm))
   \<and> userLine \<noteq> [] \<and> NL \<notin> set userLine \<and> \<not> startsWith (trim userLine) INFO
   \<and> \<not> startsWith (trim userLine) CLOCK \<and> \<not> matchesPrecautionsHeader (trim userLine)
   \<and> english (instructionDisplay
        (generateInstruction asciiCase rejectingLookups
           (showing (withUserLine asciiCase paracetamolForm userLine))
           (paracetamolForm\<lparr>frequency := twiceDaily\<rparr>)
           (showing (withUserLine asciiCase paracetamolForm userLine))))
     = js ''Paracetamol'' @ [NL]
       @ INFO @ js '' Take 500mg tablet twice daily every 8 hours.'' @ [NL]
       @ js ''after meals'' @ [NL]
       @ CLOCK @ js '' morning '' @ [0xD83C, 0xDF05] @ js '', afternoon '' @ [0x2600, 0xFE0F]
       @ js '', evening '' @ [0xD83C, 0xDF06] @ [NL, NL]
       @ js ''Precautions'' @ [NL]
       @ BULLET @ js '' Take with food'' @ [NL]"
proof -
  let ?render = "showing (withUserLine asciiCase paracetamolForm userLine)"
  have req: "truthy (name paracetamolForm)" "truthy (dosage paracetamolForm)"
    "truthy (frequency paracetamolForm)" "truthy twiceDaily"
    and tod: "truthy (timeOfDay paracetamolForm)"
    by (simp_all add: paracetamolForm_def twiceDaily_def truthy_def)
  have nm: "trim (takeWhile (\<lambda>c. c \<noteq> COMMA) (name paracetamolForm)) \<noteq> []"
    by code_simp
  have single: "NL \<notin> set (name paracetamolForm)" "NL \<notin> set (dosage paracetamolForm)"
    "NL \<notin> set (toLowerCase asciiCase (frequency paracetamolForm))"
    "NL \<notin> set (toLowerCase asciiCase (interval paracetamolForm))"
    "NL \<notin> set (toLowerCase asciiCase (timeOfDay paracetamolForm))"
    by code_simp+
  have prec: "\<forall>p\<in>set (precautions paracetamolForm). NL \<notin> set p"
    by (simp add: paracetamolForm_def)
  have period: "PERIOD \<notin> set (dosage paracetamolForm)"
    "PERIOD \<notin> set (toLowerCase asciiCase (frequency paracetamolForm))"
    "PERIOD \<notin> set (toLowerCase asciiCase (interval paracetamolForm))"
    by code_simp+
  have u: "userLine \<noteq> []" "NL \<notin> set userLine" "\<not> startsWith (trim userLine) INFO"
    "\<not> startsWith (trim userLine) CLOCK" "\<not> matchesPrecautionsHeader (trim userLine)"
    by code_simp+
  have l: "\<not> truthy (patientLanguage ?render)"
    by (simp add: showing_def initialPageState_def truthy_def Let_def)
  have e: "takeWhile (\<lambda>c. c \<noteq> COMMA) (name paracetamolForm) @ [NL]
      @ dosageSentence asciiCase (paracetamolForm\<lparr>frequency := twiceDaily\<rparr>) @ [NL] @ userLine @ [NL]
      @ timeOfDayLine asciiCase paracetamolForm @ precautionsBlock paracetamolForm
     = js ''Paracetamol'' @ [NL]
       @ INFO @ js '' Take 500mg tablet twice daily every 8 hours.'' @ [NL]
       @ js ''after meals'' @ [NL]
       @ CLOCK @ js '' morning '' @ [0xD83C, 0xDF05] @ js '', afternoon '' @ [0x2600, 0xFE0F]
       @ js '', evening '' @ [0xD83C, 0xDF06] @ [NL, NL]
       @ js ''Precautions'' @ [NL]
       @ BULLET @ js '' Take with food'' @ [NL]"
    by code_simp
  note w = user_line_survives_regeneration [OF req tod nm single prec period u showing_english,
      of rejectingLookups ?render]
  have "english (instructionDisplay
        (generateInstruction asciiCase rejectingLookups ?render
           (paracetamolForm\<lparr>frequency := twiceDaily\<rparr>) ?render))
      = takeWhile (\<lambda>c. c \<noteq> COMMA) (name paracetamolForm) @ [NL]
      @ dosageSentence asciiCase (paracetamolForm\<lparr>frequency := twiceDaily\<rparr>) @ [NL] @ userLine @ [NL]
      @ timeOfDayLine asciiCase paracetamolForm @ precautionsBlock paracetamolForm"
    using w l by (auto simp add: Let_def)
  then show ?thesis
    using req tod nm single period u prec e by (simp add: list_all_iff)
qed

end
